theory Spec2Isabelle
  imports Main "HOL-Library.Signed_Division"
begin

section \<open>Upload handlers of the video-hosting backend\<close>

text \<open>
  The repository holds four revisions of two HTTP handlers, written in Go:
  \<^item> \<open>handlerUploadThumbnail\<close>, storing the thumbnail on the local disk
    (first file of \<open>src/unnamed/part_000\<close>);
  \<^item> \<open>handlerUploadThumbnail\<close>, storing the thumbnail in the process-wide map
    \<open>videoThumbnails\<close> (second file of \<open>src/unnamed/part_000\<close>);
  \<^item> \<open>handlerUploadVideo\<close> with \<open>getVideoAspectRatio\<close>
    (third file of \<open>src/unnamed/part_000\<close>);
  \<^item> \<open>handlerUploadVideo\<close> without the probe (\<open>src/handler_upload_video.go\<close>).

  Each handler is a function from the request and the state of the world to the new state
  and what the handler did to the response writer. Every early \<open>return\<close> of the source
  is a branch of the model, in the source's order.
\<close>

subsection \<open>Go values\<close>

text \<open>A Go function either returns or panics (nil dereference, integer division by zero).\<close>

datatype 'a outcome = Return 'a | Panic

text \<open>
  Go's \<open>int\<close> is 32 or 64 bits wide, depending on the platform. The only arithmetic of
  the source is \<open>%\<close> and \<open>/\<close> in \<open>getVideoAspectRatio\<close>, whose results are never
  larger in magnitude than their first operand, so no operation can leave the range of its
  inputs and the model uses \<open>int\<close>. Both operators truncate towards zero
  (\<open>sdiv\<close>, \<open>smod\<close>); \<open>/\<close> panics on a zero divisor.
\<close>

definition go_div :: "int \<Rightarrow> int \<Rightarrow> int outcome" where
  "go_div a b = (if b = 0 then Panic else Return (a sdiv b))"

text \<open>\<open>%d\<close> of \<open>fmt.Sprintf\<close>: decimal digits, with a minus sign for a negative number.\<close>

definition digit :: "nat \<Rightarrow> char" where
  "digit d = ''0123456789'' ! d"

fun itoa_nat :: "nat \<Rightarrow> string" where
  "itoa_nat n = (if n < 10 then [digit n] else itoa_nat (n div 10) @ [digit (n mod 10)])"

declare itoa_nat.simps [simp del]

definition format_d :: "int \<Rightarrow> string" where
  "format_d i = (if i < 0 then CHR ''-'' # itoa_nat (nat (- i)) else itoa_nat (nat i))"

subsection \<open>Data\<close>

type_synonym uuid = string

text \<open>
  \<open>database.Video\<close>: the type is declared outside \<open>src/\<close>; these are the fields the
  handlers read and write. The two URLs are \<open>*string\<close> in Go: \<open>None\<close> is the nil pointer.
\<close>

record video =
  ID :: uuid
  UserID :: uuid
  ThumbnailURL :: "string option"
  VideoURL :: "string option"

text \<open>The value type of the map \<open>videoThumbnails\<close>.\<close>

record thumbnail =
  data :: string
  mediaType :: string

text \<open>One element of \<open>result.Streams\<close> in \<open>getVideoAspectRatio\<close>.\<close>

record stream =
  Width :: int
  Height :: int

text \<open>A file part of the multipart form: its \<open>Content-Type\<close> header and its bytes.\<close>

record fileHeader =
  ContentType :: string
  content :: string

text \<open>
  The request. \<open>bodySize\<close> and \<open>formFiles\<close> describe what the client sent: the number
  of bytes of the body and the file parts of the form in it; a handler sees them only
  through the readers of the library. The other fields are the state of \<open>*http.Request\<close>
  that the handlers change: \<open>bodyLimit\<close> is the cap that \<open>http.MaxBytesReader\<close> puts
  on \<open>r.Body\<close> (\<open>None\<close> while the body is not wrapped), \<open>bodyRead\<close> tells that a
  multipart reader has read from the body, \<open>FormParsed\<close> that \<open>r.Form\<close> is set, and
  \<open>MultipartForm\<close> is \<open>r.MultipartForm\<close> (its file parts by field name; \<open>None\<close>
  is nil).
\<close>

record request =
  PathValue_videoID :: string
  Header :: "(string \<times> string) list"
  bodySize :: nat
  formFiles :: "string \<rightharpoonup> fileHeader"
  bodyLimit :: "nat option"
  bodyRead :: bool
  FormParsed :: bool
  MultipartForm :: "(string \<rightharpoonup> fileHeader) option"

text \<open>
  What a handler does to the response writer.
  Modelled from the spec: \<open>respondWithError\<close> and \<open>respondWithJSON\<close> are helpers of
  this repository that are not under \<open>src/\<close>; by the spec they write the given status
  code with the message, respectively the record, as JSON.
\<close>

datatype response =
    respondWithError nat string
  | respondWithJSON nat video
  | WriteHeader nat

fun status :: "response \<Rightarrow> nat" where
  "status (respondWithError code msg) = code"
| "status (respondWithJSON code payload) = code"
| "status (WriteHeader code) = code"

text \<open>
  \<open>apiConfig\<close>: the fields the handlers read. The methods \<open>getAssetDiskPath\<close> and
  \<open>getAssetURL\<close> are not under \<open>src/\<close> and are taken as parameters.
\<close>

record apiConfig =
  jwtSecret :: string
  port :: string
  s3Bucket :: string
  getAssetDiskPath :: "string \<Rightarrow> string"
  getAssetURL :: "string \<Rightarrow> string"

text \<open>
  The collaborators outside the handlers: library functions, the two package-level helpers
  \<open>getAssetPath\<close> and \<open>getAssetFromURL\<close> (not under \<open>src/\<close>), and the faults that
  the operating system, the database and the object store can answer with.
  \<open>mime_ParseMediaType\<close> is the first result of \<open>mime.ParseMediaType\<close>; the handlers
  discard the other two. \<open>multipart_ReadForm\<close> is what the multipart reader of
  \<open>net/http\<close> makes of the body of a request in its present state (capped or not,
  already read or not) with the given \<open>maxMemory\<close>: the file parts by field name, or a
  failure; when it fails is the library's business and no definition here says so.
  \<open>ParseForm_fails\<close> is whether \<open>r.ParseForm\<close> returns an error.
\<close>

record extern =
  uuid_Parse :: "string \<Rightarrow> uuid option"
  auth_GetBearerToken :: "(string \<times> string) list \<Rightarrow> string option"
  auth_ValidateJWT :: "string \<Rightarrow> string \<Rightarrow> uuid option"
  mime_ParseMediaType :: "string \<Rightarrow> string"
  multipart_ReadForm :: "request \<Rightarrow> nat \<Rightarrow> (string \<rightharpoonup> fileHeader) option"
  ParseForm_fails :: "request \<Rightarrow> bool"
  rand_Read :: "string option"
  base64_EncodeToString :: "string \<Rightarrow> string"
  getAssetPath :: "string \<Rightarrow> string \<Rightarrow> string"
  getAssetFromURL :: "string \<Rightarrow> string"
  io_ReadAll_fails :: bool
  os_Create_fails :: "string \<Rightarrow> bool"
  io_Copy_fails :: bool
  os_CreateTemp_name :: "string option"
  Seek_fails :: bool
  UpdateVideo_fails :: "video \<Rightarrow> bool"
  s3_Upload :: "string \<Rightarrow> string \<Rightarrow> string option"
  ffprobe :: "(string \<rightharpoonup> string) \<Rightarrow> string \<Rightarrow> string option"
  json_Unmarshal :: "string \<Rightarrow> stream list option"

text \<open>The effectful calls a handler issues, in order, each with whether it succeeded.\<close>

datatype call =
    CallUpdateVideo video bool
  | CallCreate string bool
  | CallCreateTemp string
  | CallCopy string bool
  | CallRemove string bool
  | CallUpload string string bool

text \<open>
  The state the handlers work on: the record store \<open>cfg.db\<close>, the local file system,
  the package-level map \<open>videoThumbnails\<close>, the object store (bucket and key to body and
  content type), and the log of calls.
\<close>

record world =
  db :: "uuid \<rightharpoonup> video"
  disk :: "string \<rightharpoonup> string"
  videoThumbnails :: "uuid \<rightharpoonup> thumbnail"
  s3 :: "string \<times> string \<rightharpoonup> string \<times> string"
  calls :: "call list"

definition issued :: "world \<Rightarrow> world \<Rightarrow> call list" where
  "issued w w' = drop (length (calls w)) (calls w')"

subsection \<open>The record store, the file system and the object store\<close>

text \<open>
  Modelled from the spec: the package \<open>internal/database\<close> is not under \<open>src/\<close>.
  By the spec the record store offers \<open>get(id)\<close>, a record or NotFoundError, and
  \<open>update(Record)\<close>, ok or InternalError, persisting the whole record in one call.
\<close>

definition GetVideo :: "world \<Rightarrow> uuid \<Rightarrow> video option" where
  "GetVideo w videoID = db w videoID"

definition UpdateVideo :: "extern \<Rightarrow> world \<Rightarrow> video \<Rightarrow> world \<times> bool" where
  "UpdateVideo ex w v =
     (if UpdateVideo_fails ex v
      then (w\<lparr>calls := calls w @ [CallUpdateVideo v False]\<rparr>, False)
      else (w\<lparr>db := (db w)(ID v \<mapsto> v), calls := calls w @ [CallUpdateVideo v True]\<rparr>, True))"

text \<open>\<open>os.Create\<close> truncates or creates the file; \<open>io.Copy\<close> writes the bytes.\<close>

definition os_Create :: "extern \<Rightarrow> world \<Rightarrow> string \<Rightarrow> world \<times> bool" where
  "os_Create ex w p =
     (if os_Create_fails ex p
      then (w\<lparr>calls := calls w @ [CallCreate p False]\<rparr>, False)
      else (w\<lparr>disk := (disk w)(p \<mapsto> []), calls := calls w @ [CallCreate p True]\<rparr>, True))"

definition io_Copy :: "extern \<Rightarrow> world \<Rightarrow> string \<Rightarrow> string \<Rightarrow> world \<times> bool" where
  "io_Copy ex w p bytes =
     (if io_Copy_fails ex
      then (w\<lparr>calls := calls w @ [CallCopy p False]\<rparr>, False)
      else (w\<lparr>disk := (disk w)(p \<mapsto> bytes), calls := calls w @ [CallCopy p True]\<rparr>, True))"

text \<open>\<open>os.Remove\<close> deletes an existing file and fails on a path that does not exist.\<close>

definition os_Remove :: "world \<Rightarrow> string \<Rightarrow> world \<times> bool" where
  "os_Remove w p =
     (case disk w p of
        None \<Rightarrow> (w\<lparr>calls := calls w @ [CallRemove p False]\<rparr>, False)
      | Some bytes \<Rightarrow>
          (w\<lparr>disk := (disk w)(p := None), calls := calls w @ [CallRemove p True]\<rparr>, True))"

text \<open>\<open>os.CreateTemp\<close> creates a file that did not exist and returns its name.\<close>

definition os_CreateTemp :: "extern \<Rightarrow> world \<Rightarrow> world \<times> string option" where
  "os_CreateTemp ex w =
     (case os_CreateTemp_name ex of
        None \<Rightarrow> (w, None)
      | Some p \<Rightarrow>
          (case disk w p of
             Some bytes \<Rightarrow> (w, None)
           | None \<Rightarrow>
               (w\<lparr>disk := (disk w)(p \<mapsto> []), calls := calls w @ [CallCreateTemp p]\<rparr>, Some p)))"

definition readFile :: "world \<Rightarrow> string \<Rightarrow> string" where
  "readFile w p = (case disk w p of None \<Rightarrow> [] | Some bytes \<Rightarrow> bytes)"

text \<open>\<open>uploader.Upload\<close>: the location of the stored object, or a failure.\<close>

definition Upload :: "extern \<Rightarrow> world \<Rightarrow> string \<Rightarrow> string \<Rightarrow> string \<Rightarrow> string \<Rightarrow> world \<times> string option" where
  "Upload ex w bucket key body contentType =
     (case s3_Upload ex bucket key of
        None \<Rightarrow> (w\<lparr>calls := calls w @ [CallUpload bucket key False]\<rparr>, None)
      | Some location \<Rightarrow>
          (w\<lparr>s3 := (s3 w)((bucket, key) \<mapsto> (body, contentType)),
             calls := calls w @ [CallUpload bucket key True]\<rparr>, Some location))"

subsection \<open>The multipart form\<close>

text \<open>
  The control flow of three functions of \<open>net/http\<close>, with the reading itself left to
  \<open>multipart_ReadForm\<close>.
  \<open>http.MaxBytesReader(w, r.Body, n)\<close> wraps the body so that reads past \<open>n\<close> bytes
  fail.
  \<open>r.ParseMultipartForm(maxMemory)\<close> runs \<open>r.ParseForm\<close> when \<open>r.Form\<close> is nil,
  returns nil when \<open>r.MultipartForm\<close> is already set, and otherwise reads the form from
  the body: a failure of the reader is returned and leaves \<open>r.MultipartForm\<close> nil; on
  success the form is stored and the error of \<open>r.ParseForm\<close> is returned. The second
  component of the result is \<open>err != nil\<close>.
  \<open>r.FormFile(key)\<close> calls \<open>r.ParseMultipartForm(defaultMaxMemory)\<close> when
  \<open>r.MultipartForm\<close> is nil, on the body as the earlier call left it, and returns its
  error; otherwise it looks the file part up by its field name (\<open>None\<close> is
  \<open>ErrMissingFile\<close>).
\<close>

definition maxMemory :: nat where
  "maxMemory = 10 * 2 ^ 20"

definition maxVideoSize :: nat where
  "maxVideoSize = 2 ^ 30"

definition defaultMaxMemory :: nat where
  "defaultMaxMemory = 32 * 2 ^ 20"

definition MaxBytesReader :: "request \<Rightarrow> nat \<Rightarrow> request" where
  "MaxBytesReader r n = r\<lparr>bodyLimit := Some n\<rparr>"

definition ParseMultipartForm :: "extern \<Rightarrow> request \<Rightarrow> nat \<Rightarrow> request \<times> bool" where
  "ParseMultipartForm ex r maxMem =
     (let parseFormErr = (if FormParsed r then False else ParseForm_fails ex r);
          r0 = r\<lparr>FormParsed := True\<rparr> in
      case MultipartForm r0 of
        Some form \<Rightarrow> (r0, False)
      | None \<Rightarrow>
          (case multipart_ReadForm ex r0 maxMem of
             None \<Rightarrow> (r0\<lparr>bodyRead := True\<rparr>, True)
           | Some form \<Rightarrow>
               (r0\<lparr>bodyRead := True, MultipartForm := Some form\<rparr>, parseFormErr)))"

definition FormFile :: "extern \<Rightarrow> request \<Rightarrow> string \<Rightarrow> fileHeader option" where
  "FormFile ex r key =
     (case MultipartForm r of
        Some form \<Rightarrow> form key
      | None \<Rightarrow>
          (case ParseMultipartForm ex r defaultMaxMemory of (r1, failed) \<Rightarrow>
           if failed then None
           else (case MultipartForm r1 of None \<Rightarrow> None | Some form \<Rightarrow> form key)))"

subsection \<open>\<open>getVideoAspectRatio\<close>\<close>

text \<open>The four \<open>fmt.Errorf\<close> values of \<open>getVideoAspectRatio\<close>, in the order of the source.\<close>

datatype probe_error =
    FailedToRunFfprobe
  | FailedToParseFfprobeOutput
  | NoStreamsFound
  | NoValidDimensionsFound

text \<open>The closure \<open>gcd\<close>: \<open>for b != 0 { a, b = b, a%b }; return a\<close>.\<close>

function gcd_go :: "int \<Rightarrow> int \<Rightarrow> int" where
  "gcd_go a b = (if b \<noteq> 0 then gcd_go b (a smod b) else a)"
  by pat_completeness auto
termination
proof (relation "measure (\<lambda>(a, b). nat \<bar>b\<bar>)")
  show "wf (measure (\<lambda>(a, b). nat \<bar>b\<bar>))" by simp
next
  fix a b :: int
  assume "b \<noteq> 0"
  then have "\<bar>a smod b\<bar> < \<bar>b\<bar>"
    by (simp add: signed_modulo_int_def abs_mult abs_sgn_eq abs_mod_less)
  then show "((b, a smod b), (a, b)) \<in> measure (\<lambda>(a, b). nat \<bar>b\<bar>)"
    by simp
qed

declare gcd_go.simps [simp del]

text \<open>\<open>fmt.Sprintf("%d:%d", calcWidth, calcHeight)\<close>\<close>

definition Sprintf_ratio :: "int \<Rightarrow> int \<Rightarrow> string" where
  "Sprintf_ratio calcWidth calcHeight = format_d calcWidth @ '':'' @ format_d calcHeight"

text \<open>The loop \<open>for _, stream := range result.Streams\<close> and the return after it.\<close>

fun scanStreams :: "stream list \<Rightarrow> (probe_error + string) outcome" where
  "scanStreams [] = Return (Inl NoValidDimensionsFound)"
| "scanStreams (s # rest) =
     (if Width s > 0 \<and> Height s > 0
      then (let divisor = gcd_go (Width s) (Height s) in
            case go_div (Width s) divisor of
              Panic \<Rightarrow> Panic
            | Return calcWidth \<Rightarrow>
                (case go_div (Height s) divisor of
                   Panic \<Rightarrow> Panic
                 | Return calcHeight \<Rightarrow> Return (Inr (Sprintf_ratio calcWidth calcHeight))))
      else scanStreams rest)"

definition getVideoAspectRatio :: "extern \<Rightarrow> world \<Rightarrow> string \<Rightarrow> (probe_error + string) outcome" where
  "getVideoAspectRatio ex w filePath =
     (case ffprobe ex (disk w) filePath of
        None \<Rightarrow> Return (Inl FailedToRunFfprobe)
      | Some stdout \<Rightarrow>
     (case json_Unmarshal ex stdout of
        None \<Rightarrow> Return (Inl FailedToParseFfprobeOutput)
      | Some streams \<Rightarrow>
     if length streams = 0 then Return (Inl NoStreamsFound)
     else scanStreams streams))"

text \<open>
  The constants \<open>Portrait\<close> and \<open>Landscape\<close>, and lines 327 to 330 of
  \<open>handlerUploadVideo\<close>:
  \<open>aspect := "portrait"; if aspectRatio == Landscape { aspect = "landscape" }\<close>.
\<close>

definition Portrait :: string where
  "Portrait = ''9:16''"

definition Landscape :: string where
  "Landscape = ''16:9''"

definition aspect :: "string \<Rightarrow> string" where
  "aspect aspectRatio = (if aspectRatio = Landscape then ''landscape'' else ''portrait'')"

subsection \<open>\<open>handlerUploadThumbnail\<close>, storing on disk\<close>

text \<open>
  Lines 71 to 116 of \<open>handlerUploadThumbnail\<close>, after the checks of the request and of
  the record: the new file is written, the record is updated, the old file is removed.
  \<open>*videoData.ThumbnailURL\<close> panics on the nil pointer.
\<close>

definition handlerUploadThumbnail_disk_save ::
  "apiConfig \<Rightarrow> extern \<Rightarrow> world \<Rightarrow> video \<Rightarrow> fileHeader \<Rightarrow> string
     \<Rightarrow> world \<times> response outcome" where
  "handlerUploadThumbnail_disk_save cfg ex w videoData header contentType =
    (case rand_Read ex of
       None \<Rightarrow> (w, Return (respondWithError 500 ''Error creating thumbnail random ID''))
     | Some randBytes \<Rightarrow>
     let randomBase64String = base64_EncodeToString ex randBytes;
         assetPath = getAssetPath ex randomBase64String contentType;
         assetDiskPath = getAssetDiskPath cfg assetPath in
     (case os_Create ex w assetDiskPath of (w1, created) \<Rightarrow>
     if \<not> created then (w1, Return (respondWithError 500 ''Unable to create file''))
     else
     (case io_Copy ex w1 assetDiskPath (content header) of (w2, copied) \<Rightarrow>
     if \<not> copied then (w2, Return (respondWithError 500 ''Error saving file''))
     else
     let thumbnailURL = getAssetURL cfg assetPath in
     (case ThumbnailURL videoData of
       None \<Rightarrow> (w2, Panic)
     | Some oldURL \<Rightarrow>
     let oldThumbnail = getAssetFromURL ex oldURL;
         videoData' = videoData\<lparr>ThumbnailURL := Some thumbnailURL\<rparr> in
     (case UpdateVideo ex w2 videoData' of (w3, updated) \<Rightarrow>
     if \<not> updated then (w3, Return (respondWithError 500 ''Couldn't update video data''))
     else
     let oldThumbnailPath = ''./assets/'' @ oldThumbnail in
     (case os_Remove w3 oldThumbnailPath of (w4, removed) \<Rightarrow>
     if \<not> removed then (w4, Return (respondWithError 500 ''Error removing old thumbnail''))
     else (w4, Return (respondWithJSON 200 videoData'))))))))"

text \<open>Lines 18 to 69, which end in the statements above.\<close>

definition handlerUploadThumbnail_disk ::
  "apiConfig \<Rightarrow> extern \<Rightarrow> request \<Rightarrow> world \<Rightarrow> world \<times> response outcome" where
  "handlerUploadThumbnail_disk cfg ex r w =
    (case uuid_Parse ex (PathValue_videoID r) of
       None \<Rightarrow> (w, Return (respondWithError 400 ''Invalid ID''))
     | Some videoID \<Rightarrow>
     (case auth_GetBearerToken ex (Header r) of
       None \<Rightarrow> (w, Return (respondWithError 401 ''Couldn't find JWT''))
     | Some token \<Rightarrow>
     (case auth_ValidateJWT ex token (jwtSecret cfg) of
       None \<Rightarrow> (w, Return (respondWithError 401 ''Couldn't validate JWT''))
     | Some userID \<Rightarrow>
     (case ParseMultipartForm ex r maxMemory of (r1, ignored) \<Rightarrow>
     (case FormFile ex r1 ''thumbnail'' of
       None \<Rightarrow> (w, Return (respondWithError 500 ''something went wrong retrieving the form data''))
     | Some header \<Rightarrow>
     let mediaType = mime_ParseMediaType ex (ContentType header) in
     if mediaType = [] then
       (w, Return (respondWithError 400 ''Missing Content-Type for thumbnail''))
     else if mediaType \<noteq> ''image/jpeg'' \<and> mediaType \<noteq> ''image/png'' then
       (w, Return (respondWithError 400 ''wrong image type for thumbnail''))
     else
     (case GetVideo w videoID of
       None \<Rightarrow> (w, Return (respondWithError 404 ''Video not found''))
     | Some videoData \<Rightarrow>
     if UserID videoData \<noteq> userID then
       (w, Return (respondWithError 401 ''Unauthorized for this video''))
     else handlerUploadThumbnail_disk_save cfg ex w videoData header mediaType))))))"

subsection \<open>\<open>handlerUploadThumbnail\<close>, storing in memory\<close>

definition handlerUploadThumbnail_mem ::
  "apiConfig \<Rightarrow> extern \<Rightarrow> request \<Rightarrow> world \<Rightarrow> world \<times> response outcome" where
  "handlerUploadThumbnail_mem cfg ex r w =
    (case uuid_Parse ex (PathValue_videoID r) of
       None \<Rightarrow> (w, Return (respondWithError 400 ''Invalid ID''))
     | Some videoID \<Rightarrow>
     (case auth_GetBearerToken ex (Header r) of
       None \<Rightarrow> (w, Return (respondWithError 401 ''Couldn't find JWT''))
     | Some token \<Rightarrow>
     (case auth_ValidateJWT ex token (jwtSecret cfg) of
       None \<Rightarrow> (w, Return (respondWithError 401 ''Couldn't validate JWT''))
     | Some userID \<Rightarrow>
     (case ParseMultipartForm ex r maxMemory of (r1, ignored) \<Rightarrow>
     (case FormFile ex r1 ''thumbnail'' of
       None \<Rightarrow> (w, Return (respondWithError 500 ''something went wrong retrieving the form data''))
     | Some header \<Rightarrow>
     let mediaType = ContentType header in
     if mediaType = [] then
       (w, Return (respondWithError 400 ''Missing Content-Type for thumbnail''))
     else
     if io_ReadAll_fails ex then
       (w, Return (respondWithError 500 ''Couldn't read thumbnail file''))
     else
     let imageData = content header in
     (case GetVideo w videoID of
       None \<Rightarrow> (w, Return (respondWithError 404 ''Video not found''))
     | Some videoData \<Rightarrow>
     if UserID videoData \<noteq> userID then
       (w, Return (respondWithError 401 ''Unauthorized for this video''))
     else
     let w1 = w\<lparr>videoThumbnails :=
                  (videoThumbnails w)(videoID \<mapsto> \<lparr>data = imageData, mediaType = mediaType\<rparr>)\<rparr>;
         newThumbnailURL = ''http://localhost:'' @ port cfg @ ''/api/thumbnails/'' @ videoID;
         videoData' = videoData\<lparr>ThumbnailURL := Some newThumbnailURL\<rparr> in
     (case UpdateVideo ex w1 videoData' of (w2, updated) \<Rightarrow>
     if \<not> updated then
       (w2\<lparr>videoThumbnails := (videoThumbnails w2)(videoID := None)\<rparr>,
        Return (respondWithError 500 ''Couldn't update video data''))
     else (w2, Return (respondWithJSON 200 videoData')))))))))"

subsection \<open>\<open>handlerUploadVideo\<close> with the probe\<close>

text \<open>
  The statements of \<open>handlerUploadVideo\<close> after \<open>defer os.Remove(tempFile.Name())\<close>.
  The deferred call runs when they are left, by a \<open>return\<close> or by a panic.
\<close>

definition handlerUploadVideo_aspect_staged ::
  "apiConfig \<Rightarrow> extern \<Rightarrow> world \<Rightarrow> video \<Rightarrow> fileHeader \<Rightarrow> string \<Rightarrow> string
     \<Rightarrow> world \<times> response outcome" where
  "handlerUploadVideo_aspect_staged cfg ex w videoData header contentType tempFile =
    (case io_Copy ex w tempFile (content header) of (w1, copied) \<Rightarrow>
     if \<not> copied then (w1, Return (respondWithError 500 ''Error copying file''))
     else
     (case getVideoAspectRatio ex w1 tempFile of
       Panic \<Rightarrow> (w1, Panic)
     | Return (Inl err) \<Rightarrow>
         (w1, Return (respondWithError 500 ''Failed to get aspect ratio of video''))
     | Return (Inr aspectRatio) \<Rightarrow>
     if Seek_fails ex then
       (w1, Return (respondWithError 500 ''Error seeking to start of video''))
     else
     (case rand_Read ex of
       None \<Rightarrow> (w1, Return (respondWithError 500 ''Error creating video random ID''))
     | Some randBytes \<Rightarrow>
     let randomBase64String = base64_EncodeToString ex randBytes in
     (case Upload ex w1 (s3Bucket cfg) (aspect aspectRatio @ ''/'' @ randomBase64String)
            (readFile w1 tempFile) contentType of (w2, result) \<Rightarrow>
     (case result of
       None \<Rightarrow> (w2, Return (respondWithError 500 ''Error uploading video to server''))
     | Some location \<Rightarrow>
     let videoData' = videoData\<lparr>VideoURL := Some location\<rparr> in
     (case UpdateVideo ex w2 videoData' of (w3, updated) \<Rightarrow>
     if \<not> updated then (w3, Return (respondWithError 500 ''Couldn't update video data''))
     else (w3, Return (WriteHeader 201))))))))"

definition handlerUploadVideo_aspect ::
  "apiConfig \<Rightarrow> extern \<Rightarrow> request \<Rightarrow> world \<Rightarrow> world \<times> response outcome" where
  "handlerUploadVideo_aspect cfg ex r w =
    (case uuid_Parse ex (PathValue_videoID r) of
       None \<Rightarrow> (w, Return (respondWithError 400 ''Invalid video ID''))
     | Some videoID \<Rightarrow>
     (case auth_GetBearerToken ex (Header r) of
       None \<Rightarrow> (w, Return (respondWithError 401 ''Couldn't find JWT''))
     | Some token \<Rightarrow>
     (case auth_ValidateJWT ex token (jwtSecret cfg) of
       None \<Rightarrow> (w, Return (respondWithError 401 ''Couldn't validate JWT''))
     | Some userID \<Rightarrow>
     let r1 = MaxBytesReader r maxVideoSize in
     (case ParseMultipartForm ex r1 maxVideoSize of (r2, failed) \<Rightarrow>
     if failed then
       (w, Return (respondWithError 400 ''File size too big''))
     else
     (case GetVideo w videoID of
       None \<Rightarrow> (w, Return (respondWithError 404 ''Video not found''))
     | Some videoData \<Rightarrow>
     if UserID videoData \<noteq> userID then
       (w, Return (respondWithError 401 ''Unauthorized for this video''))
     else
     (case FormFile ex r2 ''video'' of
       None \<Rightarrow> (w, Return (respondWithError 500 ''something went wrong retrieving the form data''))
     | Some header \<Rightarrow>
     let mediaType = mime_ParseMediaType ex (ContentType header) in
     if mediaType \<noteq> ''video/mp4'' then
       (w, Return (respondWithError 400 ''wrong content type for video''))
     else
     (case os_CreateTemp ex w of (w1, created) \<Rightarrow>
     (case created of
       None \<Rightarrow> (w1, Return (respondWithError 500 ''Error creating file''))
     | Some tempFile \<Rightarrow>
     (case handlerUploadVideo_aspect_staged cfg ex w1 videoData header mediaType tempFile of
       (w2, out) \<Rightarrow> (fst (os_Remove w2 tempFile), out))))))))))"

subsection \<open>\<open>handlerUploadVideo\<close> of \<open>src/handler_upload_video.go\<close>\<close>

definition handlerUploadVideo_staged ::
  "apiConfig \<Rightarrow> extern \<Rightarrow> world \<Rightarrow> video \<Rightarrow> fileHeader \<Rightarrow> string \<Rightarrow> string
     \<Rightarrow> world \<times> response outcome" where
  "handlerUploadVideo_staged cfg ex w videoData header contentType tempFile =
    (case io_Copy ex w tempFile (content header) of (w1, copied) \<Rightarrow>
     if \<not> copied then (w1, Return (respondWithError 500 ''Error copying file''))
     else
     if Seek_fails ex then
       (w1, Return (respondWithError 500 ''Error seeking to start of video''))
     else
     (case rand_Read ex of
       None \<Rightarrow> (w1, Return (respondWithError 500 ''Error creating video random ID''))
     | Some randBytes \<Rightarrow>
     let randomBase64String = base64_EncodeToString ex randBytes in
     (case Upload ex w1 (s3Bucket cfg) randomBase64String
            (readFile w1 tempFile) contentType of (w2, result) \<Rightarrow>
     (case result of
       None \<Rightarrow> (w2, Return (respondWithError 500 ''Error uploading video to server''))
     | Some location \<Rightarrow>
     let videoData' = videoData\<lparr>VideoURL := Some location\<rparr> in
     (case UpdateVideo ex w2 videoData' of (w3, updated) \<Rightarrow>
     if \<not> updated then (w3, Return (respondWithError 500 ''Couldn't update video data''))
     else (w3, Return (WriteHeader 201)))))))"

definition handlerUploadVideo ::
  "apiConfig \<Rightarrow> extern \<Rightarrow> request \<Rightarrow> world \<Rightarrow> world \<times> response outcome" where
  "handlerUploadVideo cfg ex r w =
    (case uuid_Parse ex (PathValue_videoID r) of
       None \<Rightarrow> (w, Return (respondWithError 400 ''Invalid video ID''))
     | Some videoID \<Rightarrow>
     (case auth_GetBearerToken ex (Header r) of
       None \<Rightarrow> (w, Return (respondWithError 401 ''Couldn't find JWT''))
     | Some token \<Rightarrow>
     (case auth_ValidateJWT ex token (jwtSecret cfg) of
       None \<Rightarrow> (w, Return (respondWithError 401 ''Couldn't validate JWT''))
     | Some userID \<Rightarrow>
     let r1 = MaxBytesReader r maxVideoSize in
     (case ParseMultipartForm ex r1 maxVideoSize of (r2, failed) \<Rightarrow>
     if failed then
       (w, Return (respondWithError 400 ''File size too big''))
     else
     (case GetVideo w videoID of
       None \<Rightarrow> (w, Return (respondWithError 404 ''Video not found''))
     | Some videoData \<Rightarrow>
     if UserID videoData \<noteq> userID then
       (w, Return (respondWithError 401 ''Unauthorized for this video''))
     else
     (case FormFile ex r2 ''video'' of
       None \<Rightarrow> (w, Return (respondWithError 500 ''something went wrong retrieving the form data''))
     | Some header \<Rightarrow>
     let mediaType = mime_ParseMediaType ex (ContentType header) in
     if mediaType \<noteq> ''video/mp4'' then
       (w, Return (respondWithError 400 ''wrong content type for video''))
     else
     (case os_CreateTemp ex w of (w1, created) \<Rightarrow>
     (case created of
       None \<Rightarrow> (w1, Return (respondWithError 500 ''Error creating file''))
     | Some tempFile \<Rightarrow>
     (case handlerUploadVideo_staged cfg ex w1 videoData header mediaType tempFile of
       (w2, out) \<Rightarrow> (fst (os_Remove w2 tempFile), out))))))))))"

subsection \<open>The checks shared by the handlers\<close>

text \<open>The first three checks of every handler pass: the identifier parses and the token is valid.\<close>

definition authenticated :: "apiConfig \<Rightarrow> extern \<Rightarrow> request \<Rightarrow> uuid \<Rightarrow> uuid \<Rightarrow> bool" where
  "authenticated cfg ex r videoID userID =
     (uuid_Parse ex (PathValue_videoID r) = Some videoID
      \<and> (case auth_GetBearerToken ex (Header r) of
           None \<Rightarrow> False
         | Some token \<Rightarrow> auth_ValidateJWT ex token (jwtSecret cfg) = Some userID))"

section \<open>Fixtures\<close>

text \<open>
  A configuration, collaborators without faults, and a probe report, for concrete runs.
  The multipart reader of \<open>ex0\<close> returns the file parts the client sent, and fails on a
  body that has been read before.
\<close>

definition cfg0 :: apiConfig where
  "cfg0 = \<lparr>jwtSecret = ''secret'', port = ''8091'', s3Bucket = ''tubely'',
           getAssetDiskPath = (\<lambda>p. ''assets/'' @ p),
           getAssetURL = (\<lambda>p. ''http://localhost:8091/assets/'' @ p)\<rparr>"

definition report0 :: "stream list" where
  "report0 = [\<lparr>Width = 0, Height = 0\<rparr>, \<lparr>Width = 3840, Height = 2160\<rparr>,
              \<lparr>Width = 7, Height = 5\<rparr>]"

definition ex0 :: extern where
  "ex0 = \<lparr>uuid_Parse = (\<lambda>s. if s = ''v1'' then Some ''v1'' else None),
          auth_GetBearerToken = (\<lambda>h. map_of h ''Authorization''),
          auth_ValidateJWT = (\<lambda>token secret. if token = ''alice-token'' then Some ''alice'' else None),
          mime_ParseMediaType = (\<lambda>s. s),
          multipart_ReadForm = (\<lambda>r maxMem. if bodyRead r then None else Some (formFiles r)),
          ParseForm_fails = (\<lambda>r. False),
          rand_Read = Some ''random'',
          base64_EncodeToString = (\<lambda>s. s),
          getAssetPath = (\<lambda>name mt. name @ ''.png''),
          getAssetFromURL = (\<lambda>url. ''old.png''),
          io_ReadAll_fails = False,
          os_Create_fails = (\<lambda>p. False),
          io_Copy_fails = False,
          os_CreateTemp_name = Some ''/tmp/tubely-upload.mp4'',
          Seek_fails = False,
          UpdateVideo_fails = (\<lambda>v. False),
          s3_Upload = (\<lambda>bucket key. Some (''https://s3/'' @ bucket @ ''/'' @ key)),
          ffprobe = (\<lambda>fs p. Some ''json''),
          json_Unmarshal = (\<lambda>out. Some report0)\<rparr>"

definition video0 :: video where
  "video0 = \<lparr>ID = ''v1'', UserID = ''alice'',
             ThumbnailURL = Some ''http://localhost:8091/assets/old.png'', VideoURL = None\<rparr>"

definition w0 :: world where
  "w0 = \<lparr>db = [''v1'' \<mapsto> video0], disk = [''./assets/old.png'' \<mapsto> ''old bytes''],
         videoThumbnails = Map.empty, s3 = Map.empty, calls = []\<rparr>"

text \<open>A thumbnail upload and a video upload by the owner of \<open>video0\<close>.\<close>

definition r_thumb :: request where
  "r_thumb = \<lparr>PathValue_videoID = ''v1'', Header = [(''Authorization'', ''alice-token'')],
     bodySize = 1000,
     formFiles = [''thumbnail'' \<mapsto> \<lparr>ContentType = ''image/png'', content = ''png bytes''\<rparr>],
     bodyLimit = None, bodyRead = False, FormParsed = False, MultipartForm = None\<rparr>"

definition r_video :: request where
  "r_video = \<lparr>PathValue_videoID = ''v1'', Header = [(''Authorization'', ''alice-token'')],
     bodySize = 1000,
     formFiles = [''video'' \<mapsto> \<lparr>ContentType = ''video/mp4'', content = ''mp4 bytes''\<rparr>],
     bodyLimit = None, bodyRead = False, FormParsed = False, MultipartForm = None\<rparr>"

text \<open>A world in which \<open>video0\<close> already has a thumbnail in \<open>videoThumbnails\<close>.\<close>

definition w_thumb :: world where
  "w_thumb = w0\<lparr>videoThumbnails :=
               [''v1'' \<mapsto> \<lparr>data = ''old image'', mediaType = ''image/jpeg''\<rparr>]\<rparr>"

section \<open>Decimal formatting and the greatest common divisor\<close>

lemmas ops = GetVideo_def UpdateVideo_def os_Create_def io_Copy_def os_Remove_def
  os_CreateTemp_def readFile_def Upload_def MaxBytesReader_def ParseMultipartForm_def
  FormFile_def maxMemory_def maxVideoSize_def defaultMaxMemory_def

lemmas fixtures = cfg0_def ex0_def w0_def video0_def r_thumb_def r_video_def report0_def
  w_thumb_def

lemma lt_10_cases:
  "d < 10 \<Longrightarrow> d = 0 \<or> d = 1 \<or> d = 2 \<or> d = 3 \<or> d = 4 \<or> d = 5 \<or> d = 6 \<or> d = 7 \<or> d = 8 \<or> d = (9::nat)"
  by arith

lemma digit_inj: "a < 10 \<Longrightarrow> b < 10 \<Longrightarrow> digit a = digit b \<Longrightarrow> a = b"
  using lt_10_cases [of a] lt_10_cases [of b] by (auto simp: digit_def)

lemma digit_not_colon: "d < 10 \<Longrightarrow> digit d \<noteq> CHR '':''"
  using lt_10_cases [of d] by (auto simp: digit_def)

lemma itoa_nat_small: "n < 10 \<Longrightarrow> itoa_nat n = [digit n]"
  by (subst itoa_nat.simps) simp

lemma itoa_nat_big: "\<not> n < 10 \<Longrightarrow> itoa_nat n = itoa_nat (n div 10) @ [digit (n mod 10)]"
  by (subst itoa_nat.simps) simp

lemma itoa_nat_ne: "itoa_nat n \<noteq> []"
  by (subst itoa_nat.simps) simp

lemma colon_notin_itoa_nat: "CHR '':'' \<notin> set (itoa_nat n)"
proof (induction n rule: itoa_nat.induct)
  case (1 n)
  show ?case
  proof (cases "n < 10")
    case True
    then show ?thesis
      using digit_not_colon [of n] by (simp add: itoa_nat_small)
  next
    case False
    then show ?thesis
      using "1.IH" digit_not_colon [of "n mod 10"] by (simp add: itoa_nat_big)
  qed
qed

lemma itoa_nat_inj: "itoa_nat m = itoa_nat n \<Longrightarrow> m = n"
proof (induction m arbitrary: n rule: itoa_nat.induct)
  case (1 m)
  show ?case
  proof (cases "m < 10")
    case m: True
    show ?thesis
    proof (cases "n < 10")
      case True
      with m "1.prems" show ?thesis
        by (simp add: itoa_nat_small digit_inj)
    next
      case False
      with m "1.prems" itoa_nat_ne [of "n div 10"] show ?thesis
        by (simp add: itoa_nat_small itoa_nat_big)
    qed
  next
    case m: False
    show ?thesis
    proof (cases "n < 10")
      case True
      with m "1.prems" itoa_nat_ne [of "m div 10"] show ?thesis
        by (simp add: itoa_nat_small itoa_nat_big)
    next
      case False
      with m "1.prems" have eq: "itoa_nat (m div 10) = itoa_nat (n div 10)"
        and dg: "digit (m mod 10) = digit (n mod 10)"
        by (simp_all add: itoa_nat_big)
      from "1.IH" [OF m eq] have "m div 10 = n div 10" .
      moreover from dg have "m mod 10 = n mod 10"
        by (intro digit_inj) simp_all
      ultimately show ?thesis
        by (metis div_mult_mod_eq)
    qed
  qed
qed

lemma Sprintf_ratio_inj:
  assumes "0 \<le> a" "0 \<le> b" "0 \<le> c" "0 \<le> d"
  shows "Sprintf_ratio a b = Sprintf_ratio c d \<longleftrightarrow> a = c \<and> b = d"
proof
  assume "Sprintf_ratio a b = Sprintf_ratio c d"
  with assms have "itoa_nat (nat a) @ CHR '':'' # itoa_nat (nat b)
      = itoa_nat (nat c) @ CHR '':'' # itoa_nat (nat d)"
    by (simp add: Sprintf_ratio_def format_d_def)
  then have "itoa_nat (nat a) = itoa_nat (nat c) \<and> itoa_nat (nat b) = itoa_nat (nat d)"
    by (subst (asm) append_Cons_eq_iff) (simp_all add: colon_notin_itoa_nat)
  then have "nat a = nat c \<and> nat b = nat d"
    by (auto dest: itoa_nat_inj)
  with assms show "a = c \<and> b = d" by (simp add: eq_nat_nat_iff)
next
  assume "a = c \<and> b = d"
  then show "Sprintf_ratio a b = Sprintf_ratio c d" by simp
qed

lemma Sprintf_ratio_16_9: "Sprintf_ratio 16 9 = Landscape"
  by (simp add: Sprintf_ratio_def format_d_def itoa_nat.simps digit_def Landscape_def)

lemma Sprintf_ratio_eq_Landscape:
  "0 \<le> a \<Longrightarrow> 0 \<le> b \<Longrightarrow> Sprintf_ratio a b = Landscape \<longleftrightarrow> a = 16 \<and> b = 9"
  using Sprintf_ratio_inj [of a b 16 9] by (simp add: Sprintf_ratio_16_9)

lemma gcd_go_eq_gcd: "0 \<le> a \<Longrightarrow> 0 \<le> b \<Longrightarrow> gcd_go a b = gcd a b"
proof (induction a b rule: gcd_go.induct)
  case (1 a b)
  show ?case
  proof (cases "b = 0")
    case True
    with "1.prems" show ?thesis by (subst gcd_go.simps) simp
  next
    case False
    with "1.prems" have pos: "0 < b" by simp
    with "1.prems" have sm: "a smod b = a mod b"
      by (simp add: signed_modulo_int_def sgn_if)
    have "gcd_go a b = gcd_go b (a mod b)"
      using False sm by (subst gcd_go.simps) simp
    also have "\<dots> = gcd b (a mod b)"
      using "1.IH" [OF False] pos sm by simp
    also have "\<dots> = gcd a b"
      by (metis gcd_red_int)
    finally show ?thesis .
  qed
qed

section \<open>The media prober\<close>

lemma go_div_pos: "0 \<le> a \<Longrightarrow> 0 < b \<Longrightarrow> go_div a b = Return (a div b)"
  by (simp add: go_div_def signed_divide_int_def sgn_if)

lemma scanStreams_usable:
  assumes "0 < Width s" "0 < Height s"
  shows "scanStreams (s # rest) =
    Return (Inr (Sprintf_ratio (Width s div gcd (Width s) (Height s))
                               (Height s div gcd (Width s) (Height s))))"
proof -
  have g: "gcd_go (Width s) (Height s) = gcd (Width s) (Height s)"
    using assms by (simp add: gcd_go_eq_gcd)
  have pos: "0 < gcd (Width s) (Height s)"
    using assms by simp
  show ?thesis
    using assms pos by (simp add: g go_div_pos Let_def)
qed

lemma scanStreams_skip:
  "\<forall>t\<in>set pre. \<not> (0 < Width t \<and> 0 < Height t) \<Longrightarrow> scanStreams (pre @ rest) = scanStreams rest"
  by (induction pre) auto

lemma scanStreams_no_Panic: "scanStreams streams \<noteq> Panic"
proof (induction streams)
  case Nil
  show ?case by simp
next
  case (Cons s rest)
  show ?case
  proof (cases "0 < Width s \<and> 0 < Height s")
    case True
    then show ?thesis by (simp only: scanStreams_usable) simp
  next
    case False
    with Cons show ?thesis by auto
  qed
qed

lemma reduced_pos:
  fixes a b :: int
  assumes "0 < a" "0 < b"
  shows "0 < a div gcd a b" and "0 < b div gcd a b"
proof -
  have g: "0 < gcd a b" using assms by simp
  have "gcd a b \<le> a" using assms by simp
  with g show "0 < a div gcd a b" by (simp add: pos_imp_zdiv_pos_iff)
  have "gcd a b \<le> b" using assms by simp
  with g show "0 < b div gcd a b" by (simp add: pos_imp_zdiv_pos_iff)
qed

lemma reduced_coprime:
  fixes a b :: int
  assumes "0 < a"
  shows "coprime (a div gcd a b) (b div gcd a b)"
  using assms by (intro div_gcd_coprime) simp

lemma getVideoAspectRatio_first_usable:
  assumes "ffprobe ex (disk w) filePath = Some stdout"
    and "json_Unmarshal ex stdout = Some (pre @ s # post)"
    and "\<forall>t\<in>set pre. \<not> (0 < Width t \<and> 0 < Height t)"
    and "0 < Width s" and "0 < Height s"
  shows "getVideoAspectRatio ex w filePath =
    Return (Inr (Sprintf_ratio (Width s div gcd (Width s) (Height s))
                               (Height s div gcd (Width s) (Height s))))"
proof -
  have "getVideoAspectRatio ex w filePath = scanStreams (pre @ s # post)"
    using assms(1,2) by (simp add: getVideoAspectRatio_def)
  also have "\<dots> = scanStreams (s # post)"
    using assms(3) by (rule scanStreams_skip)
  finally show ?thesis
    using assms(4,5) by (simp only: scanStreams_usable)
qed

lemma getVideoAspectRatio_none_usable:
  assumes "ffprobe ex (disk w) filePath = Some stdout"
    and "json_Unmarshal ex stdout = Some streams"
    and "\<forall>t\<in>set streams. \<not> (0 < Width t \<and> 0 < Height t)"
  shows "getVideoAspectRatio ex w filePath =
    Return (Inl (if streams = [] then NoStreamsFound else NoValidDimensionsFound))"
proof -
  have "scanStreams (streams @ []) = scanStreams []"
    using assms(3) by (rule scanStreams_skip)
  then show ?thesis
    using assms(1,2) by (simp add: getVideoAspectRatio_def)
qed

lemma getVideoAspectRatio_no_Panic: "getVideoAspectRatio ex w filePath \<noteq> Panic"
  by (simp add: getVideoAspectRatio_def scanStreams_no_Panic split: option.splits)

text \<open>
  C4. When the probe report's first stream with strictly positive width and height has
  the dimensions \<open>(width, height)\<close>, \<open>getVideoAspectRatio\<close> returns the two numbers
  divided by their greatest common divisor, printed in decimal with a colon between them;
  both are strictly positive and they have no common divisor left.
  \<open>(3840, 2160)\<close> gives \<open>16:9\<close> and \<open>(7, 5)\<close> gives \<open>7:5\<close>.
\<close>

theorem getVideoAspectRatio_reduced_ratio:
  assumes "ffprobe ex (disk w) filePath = Some stdout"
    and "json_Unmarshal ex stdout = Some (pre @ s # post)"
    and "\<forall>t\<in>set pre. \<not> (0 < Width t \<and> 0 < Height t)"
    and "0 < Width s" and "0 < Height s"
  shows "getVideoAspectRatio ex w filePath =
           Return (Inr (format_d (Width s div gcd (Width s) (Height s)) @ '':'' @
                        format_d (Height s div gcd (Width s) (Height s))))
       \<and> 0 < Width s div gcd (Width s) (Height s)
       \<and> 0 < Height s div gcd (Width s) (Height s)
       \<and> coprime (Width s div gcd (Width s) (Height s)) (Height s div gcd (Width s) (Height s))"
  using getVideoAspectRatio_first_usable [OF assms] assms(4,5)
  by (simp add: Sprintf_ratio_def reduced_pos reduced_coprime)

theorem getVideoAspectRatio_reduced_ratio_witness:
  "getVideoAspectRatio ex0 w0 ''/tmp/tubely-upload.mp4'' = Return (Inr ''16:9'')
   \<and> getVideoAspectRatio (ex0\<lparr>json_Unmarshal := (\<lambda>out. Some [\<lparr>Width = 7, Height = 5\<rparr>])\<rparr>)
        w0 ''/tmp/tubely-upload.mp4'' = Return (Inr ''7:5'')"
proof -
  have a: "(3840::int) div gcd 3840 2160 = 16" "(2160::int) div gcd 3840 2160 = 9"
    by code_simp+
  have b: "(7::int) div gcd 7 5 = 7" "(5::int) div gcd 7 5 = 5"
    by code_simp+
  have "getVideoAspectRatio ex0 w0 ''/tmp/tubely-upload.mp4'' = Return (Inr ''16:9'')"
    using getVideoAspectRatio_reduced_ratio
      [of ex0 w0 "''/tmp/tubely-upload.mp4''" "''json''" "[\<lparr>Width = 0, Height = 0\<rparr>]"
          "\<lparr>Width = 3840, Height = 2160\<rparr>" "[\<lparr>Width = 7, Height = 5\<rparr>]"]
    by (simp add: ex0_def report0_def a format_d_def itoa_nat.simps digit_def)
  moreover
  have "getVideoAspectRatio (ex0\<lparr>json_Unmarshal := (\<lambda>out. Some [\<lparr>Width = 7, Height = 5\<rparr>])\<rparr>)
        w0 ''/tmp/tubely-upload.mp4'' = Return (Inr ''7:5'')"
    using getVideoAspectRatio_reduced_ratio
      [of "ex0\<lparr>json_Unmarshal := (\<lambda>out. Some [\<lparr>Width = 7, Height = 5\<rparr>])\<rparr>" w0
          "''/tmp/tubely-upload.mp4''" "''json''" "[]" "\<lparr>Width = 7, Height = 5\<rparr>" "[]"]
    by (simp add: ex0_def b format_d_def itoa_nat.simps digit_def)
  ultimately show ?thesis by simp
qed

text \<open>
  C6. \<open>getVideoAspectRatio\<close> goes through the streams in the reported order and
  answers from the first one whose width and height are both strictly positive, whatever
  follows it. A report without streams gives the error "no streams found", a report whose
  streams all have a zero or negative dimension gives the error "no video stream with
  valid dimensions found"; both differ from the error of a report that does not parse, no
  ratio is returned in either case, and \<open>getVideoAspectRatio\<close> never panics.
\<close>

theorem getVideoAspectRatio_stream_selection:
  assumes "ffprobe ex (disk w) filePath = Some stdout"
  shows "(json_Unmarshal ex stdout = None \<longrightarrow>
            getVideoAspectRatio ex w filePath = Return (Inl FailedToParseFfprobeOutput))
       \<and> (json_Unmarshal ex stdout = Some [] \<longrightarrow>
            getVideoAspectRatio ex w filePath = Return (Inl NoStreamsFound))
       \<and> (\<forall>streams. json_Unmarshal ex stdout = Some streams \<and> streams \<noteq> []
              \<and> (\<forall>t\<in>set streams. \<not> (0 < Width t \<and> 0 < Height t)) \<longrightarrow>
            getVideoAspectRatio ex w filePath = Return (Inl NoValidDimensionsFound))
       \<and> (\<forall>pre s post. json_Unmarshal ex stdout = Some (pre @ s # post)
              \<and> (\<forall>t\<in>set pre. \<not> (0 < Width t \<and> 0 < Height t))
              \<and> 0 < Width s \<and> 0 < Height s \<longrightarrow>
            getVideoAspectRatio ex w filePath =
              Return (Inr (Sprintf_ratio (Width s div gcd (Width s) (Height s))
                                         (Height s div gcd (Width s) (Height s)))))
       \<and> getVideoAspectRatio ex w filePath \<noteq> Panic
       \<and> NoStreamsFound \<noteq> FailedToParseFfprobeOutput
       \<and> NoValidDimensionsFound \<noteq> FailedToParseFfprobeOutput"
proof -
  have parse: "json_Unmarshal ex stdout = None \<longrightarrow>
      getVideoAspectRatio ex w filePath = Return (Inl FailedToParseFfprobeOutput)"
    using assms by (simp add: getVideoAspectRatio_def)
  have empty: "json_Unmarshal ex stdout = Some [] \<longrightarrow>
      getVideoAspectRatio ex w filePath = Return (Inl NoStreamsFound)"
    using assms by (simp add: getVideoAspectRatio_def)
  have none: "\<forall>streams. json_Unmarshal ex stdout = Some streams \<and> streams \<noteq> []
        \<and> (\<forall>t\<in>set streams. \<not> (0 < Width t \<and> 0 < Height t)) \<longrightarrow>
      getVideoAspectRatio ex w filePath = Return (Inl NoValidDimensionsFound)"
    using getVideoAspectRatio_none_usable [OF assms] by auto
  have first: "\<forall>pre s post. json_Unmarshal ex stdout = Some (pre @ s # post)
        \<and> (\<forall>t\<in>set pre. \<not> (0 < Width t \<and> 0 < Height t))
        \<and> 0 < Width s \<and> 0 < Height s \<longrightarrow>
      getVideoAspectRatio ex w filePath =
        Return (Inr (Sprintf_ratio (Width s div gcd (Width s) (Height s))
                                   (Height s div gcd (Width s) (Height s))))"
    using getVideoAspectRatio_first_usable [OF assms] by blast
  show ?thesis
    using parse empty none first getVideoAspectRatio_no_Panic [of ex w filePath] by simp
qed

theorem getVideoAspectRatio_stream_selection_witness:
  "getVideoAspectRatio (ex0\<lparr>json_Unmarshal := (\<lambda>out. None)\<rparr>) w0 ''/tmp/tubely-upload.mp4''
     = Return (Inl FailedToParseFfprobeOutput)
   \<and> getVideoAspectRatio (ex0\<lparr>json_Unmarshal := (\<lambda>out. Some [])\<rparr>) w0 ''/tmp/tubely-upload.mp4''
     = Return (Inl NoStreamsFound)
   \<and> getVideoAspectRatio
        (ex0\<lparr>json_Unmarshal := (\<lambda>out. Some [\<lparr>Width = 0, Height = 0\<rparr>, \<lparr>Width = - 4, Height = 3\<rparr>])\<rparr>)
        w0 ''/tmp/tubely-upload.mp4''
     = Return (Inl NoValidDimensionsFound)
   \<and> getVideoAspectRatio ex0 w0 ''/tmp/tubely-upload.mp4''
     = Return (Inr (Sprintf_ratio 16 9))"
proof -
  let ?p = "''/tmp/tubely-upload.mp4''"
  let ?e1 = "ex0\<lparr>json_Unmarshal := (\<lambda>out. None)\<rparr>"
  let ?e2 = "ex0\<lparr>json_Unmarshal := (\<lambda>out. Some [])\<rparr>"
  let ?e3 = "ex0\<lparr>json_Unmarshal := (\<lambda>out. Some [\<lparr>Width = 0, Height = 0\<rparr>, \<lparr>Width = - 4, Height = 3\<rparr>])\<rparr>"
  have g: "(3840::int) div gcd 3840 2160 = 16" "(2160::int) div gcd 3840 2160 = 9"
    by code_simp+
  have "getVideoAspectRatio ?e1 w0 ?p = Return (Inl FailedToParseFfprobeOutput)"
    using getVideoAspectRatio_stream_selection [of ?e1 w0 ?p "''json''"]
    by (simp add: ex0_def)
  moreover have "getVideoAspectRatio ?e2 w0 ?p = Return (Inl NoStreamsFound)"
    using getVideoAspectRatio_stream_selection [of ?e2 w0 ?p "''json''"]
    by (simp add: ex0_def)
  moreover have "getVideoAspectRatio ?e3 w0 ?p = Return (Inl NoValidDimensionsFound)"
    using getVideoAspectRatio_stream_selection [of ?e3 w0 ?p "''json''"]
    by (simp add: ex0_def)
  moreover have "getVideoAspectRatio ex0 w0 ?p = Return (Inr (Sprintf_ratio 16 9))"
  proof -
    have "json_Unmarshal ex0 ''json'' =
        Some ([\<lparr>Width = 0, Height = 0\<rparr>] @ \<lparr>Width = 3840, Height = 2160\<rparr> # [\<lparr>Width = 7, Height = 5\<rparr>])
      \<and> (\<forall>t\<in>set [\<lparr>Width = 0, Height = 0\<rparr>]. \<not> (0 < Width t \<and> 0 < Height t))
      \<and> 0 < Width \<lparr>Width = 3840, Height = 2160\<rparr> \<and> 0 < Height \<lparr>Width = 3840, Height = 2160\<rparr>"
      by (simp add: ex0_def report0_def)
    moreover have "ffprobe ex0 (disk w0) ?p = Some ''json''"
      by (simp add: ex0_def)
    ultimately show ?thesis
      using getVideoAspectRatio_stream_selection [of ex0 w0 ?p "''json''"] g
      by (metis stream.select_convs(1,2))
  qed
  ultimately show ?thesis by simp
qed

text \<open>
  C1 (amended). When the first usable stream reduces to 16:9, \<open>handlerUploadVideo\<close>
  files the upload under \<open>landscape\<close>; when it reduces to 9:16, under \<open>portrait\<close>;
  and every other reduced ratio is filed under \<open>portrait\<close> as well: the comparison is an
  exact match against \<open>Landscape\<close> only, and there is no third class.
\<close>

theorem aspect_of_reduced_ratio:
  assumes "ffprobe ex (disk w) filePath = Some stdout"
    and "json_Unmarshal ex stdout = Some (pre @ s # post)"
    and "\<forall>t\<in>set pre. \<not> (0 < Width t \<and> 0 < Height t)"
    and "0 < Width s" and "0 < Height s"
  shows "\<exists>aspectRatio. getVideoAspectRatio ex w filePath = Return (Inr aspectRatio)
       \<and> (Width s div gcd (Width s) (Height s) = 16 \<and> Height s div gcd (Width s) (Height s) = 9
            \<longrightarrow> aspect aspectRatio = ''landscape'')
       \<and> (Width s div gcd (Width s) (Height s) = 9 \<and> Height s div gcd (Width s) (Height s) = 16
            \<longrightarrow> aspect aspectRatio = ''portrait'')
       \<and> (\<not> (Width s div gcd (Width s) (Height s) = 16 \<and> Height s div gcd (Width s) (Height s) = 9)
            \<longrightarrow> aspect aspectRatio = ''portrait'')"
proof -
  let ?a = "Width s div gcd (Width s) (Height s)"
  let ?b = "Height s div gcd (Width s) (Height s)"
  have pos: "0 \<le> ?a" "0 \<le> ?b"
    using reduced_pos [OF assms(4,5)] by simp_all
  have land: "aspect (Sprintf_ratio ?a ?b) = ''landscape'' \<longleftrightarrow> ?a = 16 \<and> ?b = 9"
    using Sprintf_ratio_eq_Landscape [OF pos] by (simp add: aspect_def)
  have port: "aspect (Sprintf_ratio ?a ?b) = ''portrait'' \<longleftrightarrow> \<not> (?a = 16 \<and> ?b = 9)"
    using Sprintf_ratio_eq_Landscape [OF pos] by (simp add: aspect_def)
  show ?thesis
    using getVideoAspectRatio_first_usable [OF assms] land port by auto
qed

theorem aspect_of_reduced_ratio_witness:
  "(\<exists>aspectRatio. getVideoAspectRatio ex0 w0 ''/tmp/tubely-upload.mp4'' = Return (Inr aspectRatio)
      \<and> aspect aspectRatio = ''landscape'')
   \<and> (\<exists>aspectRatio.
        getVideoAspectRatio (ex0\<lparr>json_Unmarshal := (\<lambda>out. Some [\<lparr>Width = 1080, Height = 1920\<rparr>])\<rparr>)
          w0 ''/tmp/tubely-upload.mp4'' = Return (Inr aspectRatio)
      \<and> aspect aspectRatio = ''portrait'')
   \<and> (\<exists>aspectRatio.
        getVideoAspectRatio (ex0\<lparr>json_Unmarshal := (\<lambda>out. Some [\<lparr>Width = 640, Height = 480\<rparr>])\<rparr>)
          w0 ''/tmp/tubely-upload.mp4'' = Return (Inr aspectRatio)
      \<and> aspect aspectRatio = ''portrait'')"
proof -
  let ?p = "''/tmp/tubely-upload.mp4''"
  have g: "(3840::int) div gcd 3840 2160 = 16" "(2160::int) div gcd 3840 2160 = 9"
    "(1080::int) div gcd 1080 1920 = 9" "(1920::int) div gcd 1080 1920 = 16"
    "(640::int) div gcd 640 480 = 4" "(480::int) div gcd 640 480 = 3"
    by code_simp+
  have "\<exists>aspectRatio. getVideoAspectRatio ex0 w0 ?p = Return (Inr aspectRatio)
      \<and> aspect aspectRatio = ''landscape''"
    using aspect_of_reduced_ratio
      [of ex0 w0 ?p "''json''" "[\<lparr>Width = 0, Height = 0\<rparr>]"
          "\<lparr>Width = 3840, Height = 2160\<rparr>" "[\<lparr>Width = 7, Height = 5\<rparr>]"]
    by (simp add: ex0_def report0_def g)
  moreover
  have "\<exists>aspectRatio.
        getVideoAspectRatio (ex0\<lparr>json_Unmarshal := (\<lambda>out. Some [\<lparr>Width = 1080, Height = 1920\<rparr>])\<rparr>)
          w0 ?p = Return (Inr aspectRatio)
      \<and> aspect aspectRatio = ''portrait''"
    using aspect_of_reduced_ratio
      [of "ex0\<lparr>json_Unmarshal := (\<lambda>out. Some [\<lparr>Width = 1080, Height = 1920\<rparr>])\<rparr>" w0 ?p
          "''json''" "[]" "\<lparr>Width = 1080, Height = 1920\<rparr>" "[]"]
    by (simp add: ex0_def g)
  moreover
  have "\<exists>aspectRatio.
        getVideoAspectRatio (ex0\<lparr>json_Unmarshal := (\<lambda>out. Some [\<lparr>Width = 640, Height = 480\<rparr>])\<rparr>)
          w0 ?p = Return (Inr aspectRatio)
      \<and> aspect aspectRatio = ''portrait''"
    using aspect_of_reduced_ratio
      [of "ex0\<lparr>json_Unmarshal := (\<lambda>out. Some [\<lparr>Width = 640, Height = 480\<rparr>])\<rparr>" w0 ?p
          "''json''" "[]" "\<lparr>Width = 640, Height = 480\<rparr>" "[]"]
    by (simp add: ex0_def g)
  ultimately show ?thesis by simp
qed

text \<open>A square video, 1000 by 1000, reduces to 1:1 and is filed under \<open>portrait\<close>.\<close>

theorem aspect_unclassified_counterexample:
  "getVideoAspectRatio (ex0\<lparr>json_Unmarshal := (\<lambda>out. Some [\<lparr>Width = 1000, Height = 1000\<rparr>])\<rparr>)
      w0 ''/tmp/tubely-upload.mp4'' = Return (Inr ''1:1'')
   \<and> aspect ''1:1'' = ''portrait''
   \<and> aspect ''1:1'' \<noteq> ''unclassified''"
proof -
  have g: "gcd_go 1000 1000 = 1000"
    by (simp add: gcd_go_eq_gcd)
  show ?thesis
    by (simp add: getVideoAspectRatio_def ex0_def g go_div_def Sprintf_ratio_def format_d_def
        itoa_nat.simps digit_def aspect_def Landscape_def)
qed

lemma getVideoAspectRatio_report0:
  assumes "ffprobe ex (disk w) p = Some out" and "json_Unmarshal ex out = Some report0"
  shows "getVideoAspectRatio ex w p = Return (Inr ''16:9'')"
proof -
  have g: "(3840::int) div gcd 3840 2160 = 16" "(2160::int) div gcd 3840 2160 = 9"
    by code_simp+
  have "getVideoAspectRatio ex w p = Return (Inr (Sprintf_ratio 16 9))"
    using getVideoAspectRatio_first_usable
      [of ex w p out "[\<lparr>Width = 0, Height = 0\<rparr>]"
          "\<lparr>Width = 3840, Height = 2160\<rparr>" "[\<lparr>Width = 7, Height = 5\<rparr>]"] assms
    by (simp add: report0_def g)
  then show ?thesis
    by (simp add: Sprintf_ratio_16_9 Landscape_def)
qed

lemmas probe0 = getVideoAspectRatio_report0 [where out = "''json''"]

section \<open>The video handlers\<close>

lemma os_Remove_existing:
  assumes "disk w p \<noteq> None"
  shows "os_Remove w p = (w\<lparr>disk := (disk w)(p := None), calls := calls w @ [CallRemove p True]\<rparr>, True)"
  using assms by (auto simp: os_Remove_def)

lemma deferred_remove:
  assumes "calls w1 = calls w @ [CallCreateTemp tmp]"
    and "calls w2 = calls w1 @ xs"
    and "disk w2 tmp \<noteq> None"
  shows "issued w (fst (os_Remove w2 tmp)) = CallCreateTemp tmp # xs @ [CallRemove tmp True]"
    and "disk (fst (os_Remove w2 tmp)) tmp = None"
    and "db (fst (os_Remove w2 tmp)) = db w2"
  using assms by (simp_all add: os_Remove_existing issued_def)

lemma staged_calls:
  "calls (fst (handlerUploadVideo_staged cfg ex w v h ct tmp))
     = calls w @ issued w (fst (handlerUploadVideo_staged cfg ex w v h ct tmp))"
  by (simp add: handlerUploadVideo_staged_def io_Copy_def Upload_def UpdateVideo_def issued_def
      Let_def split: option.split)

lemma staged_no_file_calls:
  "CallCreateTemp q \<notin> set (issued w (fst (handlerUploadVideo_staged cfg ex w v h ct tmp)))
   \<and> CallRemove q ok \<notin> set (issued w (fst (handlerUploadVideo_staged cfg ex w v h ct tmp)))"
  by (simp add: handlerUploadVideo_staged_def io_Copy_def Upload_def UpdateVideo_def issued_def
      Let_def split: option.split)

lemma staged_disk:
  "disk w tmp \<noteq> None \<longrightarrow> disk (fst (handlerUploadVideo_staged cfg ex w v h ct tmp)) tmp \<noteq> None"
  by (simp add: handlerUploadVideo_staged_def io_Copy_def Upload_def UpdateVideo_def
      Let_def split: option.split)

lemma staged_upload_failure:
  "CallUpload b k False \<in> set (issued w (fst (handlerUploadVideo_staged cfg ex w v h ct tmp))) \<longrightarrow>
     snd (handlerUploadVideo_staged cfg ex w v h ct tmp)
       = Return (respondWithError 500 ''Error uploading video to server'')
     \<and> db (fst (handlerUploadVideo_staged cfg ex w v h ct tmp)) = db w
     \<and> (\<forall>v' ok. CallUpdateVideo v' ok
           \<notin> set (issued w (fst (handlerUploadVideo_staged cfg ex w v h ct tmp))))"
  by (simp add: handlerUploadVideo_staged_def io_Copy_def Upload_def UpdateVideo_def issued_def
      Let_def split: option.split)

lemma handlerUploadVideo_cases:
  "fst (handlerUploadVideo cfg ex r w) = w
   \<or> (\<exists>tmp v h ct.
        disk w tmp = None
        \<and> handlerUploadVideo cfg ex r w =
            (fst (os_Remove (fst (handlerUploadVideo_staged cfg ex
                    (w\<lparr>disk := (disk w)(tmp \<mapsto> []), calls := calls w @ [CallCreateTemp tmp]\<rparr>)
                    v h ct tmp)) tmp),
             snd (handlerUploadVideo_staged cfg ex
                    (w\<lparr>disk := (disk w)(tmp \<mapsto> []), calls := calls w @ [CallCreateTemp tmp]\<rparr>)
                    v h ct tmp)))"
  by (auto simp: handlerUploadVideo_def os_CreateTemp_def Let_def case_prod_beta split: option.split)


lemma aspect_staged_calls:
  "calls (fst (handlerUploadVideo_aspect_staged cfg ex w v h ct tmp))
     = calls w @ issued w (fst (handlerUploadVideo_aspect_staged cfg ex w v h ct tmp))"
  by (simp add: handlerUploadVideo_aspect_staged_def io_Copy_def Upload_def UpdateVideo_def
      issued_def Let_def split: option.split outcome.split sum.split)

lemma aspect_staged_no_file_calls:
  "CallCreateTemp q \<notin> set (issued w (fst (handlerUploadVideo_aspect_staged cfg ex w v h ct tmp)))
   \<and> CallRemove q ok \<notin> set (issued w (fst (handlerUploadVideo_aspect_staged cfg ex w v h ct tmp)))"
  by (simp add: handlerUploadVideo_aspect_staged_def io_Copy_def Upload_def UpdateVideo_def
      issued_def Let_def split: option.split outcome.split sum.split)

lemma aspect_staged_disk:
  "disk w tmp \<noteq> None \<longrightarrow>
     disk (fst (handlerUploadVideo_aspect_staged cfg ex w v h ct tmp)) tmp \<noteq> None"
  by (simp add: handlerUploadVideo_aspect_staged_def io_Copy_def Upload_def UpdateVideo_def
      Let_def split: option.split outcome.split sum.split)

lemma aspect_staged_upload_failure:
  "CallUpload b k False
     \<in> set (issued w (fst (handlerUploadVideo_aspect_staged cfg ex w v h ct tmp))) \<longrightarrow>
     snd (handlerUploadVideo_aspect_staged cfg ex w v h ct tmp)
       = Return (respondWithError 500 ''Error uploading video to server'')
     \<and> db (fst (handlerUploadVideo_aspect_staged cfg ex w v h ct tmp)) = db w
     \<and> (\<forall>v' ok. CallUpdateVideo v' ok
           \<notin> set (issued w (fst (handlerUploadVideo_aspect_staged cfg ex w v h ct tmp))))"
  by (simp add: handlerUploadVideo_aspect_staged_def io_Copy_def Upload_def UpdateVideo_def
      issued_def Let_def split: option.split outcome.split sum.split)

lemma handlerUploadVideo_aspect_cases:
  "fst (handlerUploadVideo_aspect cfg ex r w) = w
   \<or> (\<exists>tmp v h ct.
        disk w tmp = None
        \<and> handlerUploadVideo_aspect cfg ex r w =
            (fst (os_Remove (fst (handlerUploadVideo_aspect_staged cfg ex
                    (w\<lparr>disk := (disk w)(tmp \<mapsto> []), calls := calls w @ [CallCreateTemp tmp]\<rparr>)
                    v h ct tmp)) tmp),
             snd (handlerUploadVideo_aspect_staged cfg ex
                    (w\<lparr>disk := (disk w)(tmp \<mapsto> []), calls := calls w @ [CallCreateTemp tmp]\<rparr>)
                    v h ct tmp)))"
  by (auto simp: handlerUploadVideo_aspect_def os_CreateTemp_def Let_def case_prod_beta
      split: option.split)

text \<open>
  What the deferred \<open>os.Remove\<close> makes of a staged run \<open>S\<close> that started in the world
  right after \<open>os.CreateTemp\<close>.
\<close>

lemma deferred_temp_file:
  fixes S :: "world \<times> response outcome"
  assumes w1: "w1 = w\<lparr>disk := (disk w)(tmp \<mapsto> []), calls := calls w @ [CallCreateTemp tmp]\<rparr>"
    and calls: "calls (fst S) = calls w1 @ issued w1 (fst S)"
    and nofile: "\<And>q ok. CallCreateTemp q \<notin> set (issued w1 (fst S))
                        \<and> CallRemove q ok \<notin> set (issued w1 (fst S))"
    and keeps: "disk w1 tmp \<noteq> None \<longrightarrow> disk (fst S) tmp \<noteq> None"
    and H: "H = (fst (os_Remove (fst S) tmp), snd S)"
  shows "CallCreateTemp p \<in> set (issued w (fst H)) \<longrightarrow>
           disk (fst H) p = None \<and> last (issued w (fst H)) = CallRemove p True"
proof -
  have c1: "calls w1 = calls w @ [CallCreateTemp tmp]"
    by (simp add: w1)
  have d: "disk (fst S) tmp \<noteq> None"
    using keeps by (simp add: w1)
  note r = deferred_remove [OF c1 calls d]
  show ?thesis
    using nofile by (auto simp: H r)
qed

lemma deferred_upload_failure:
  fixes S :: "world \<times> response outcome"
  assumes w1: "w1 = w\<lparr>disk := (disk w)(tmp \<mapsto> []), calls := calls w @ [CallCreateTemp tmp]\<rparr>"
    and calls: "calls (fst S) = calls w1 @ issued w1 (fst S)"
    and keeps: "disk w1 tmp \<noteq> None \<longrightarrow> disk (fst S) tmp \<noteq> None"
    and upload: "CallUpload b k False \<in> set (issued w1 (fst S)) \<longrightarrow>
        snd S = Return (respondWithError 500 ''Error uploading video to server'')
        \<and> db (fst S) = db w1
        \<and> (\<forall>v' ok. CallUpdateVideo v' ok \<notin> set (issued w1 (fst S)))"
    and H: "H = (fst (os_Remove (fst S) tmp), snd S)"
  shows "CallUpload b k False \<in> set (issued w (fst H)) \<longrightarrow>
           snd H = Return (respondWithError 500 ''Error uploading video to server'')
           \<and> db (fst H) = db w
           \<and> (\<forall>v ok. CallUpdateVideo v ok \<notin> set (issued w (fst H)))"
proof -
  have c1: "calls w1 = calls w @ [CallCreateTemp tmp]"
    by (simp add: w1)
  have d: "disk (fst S) tmp \<noteq> None"
    using keeps by (simp add: w1)
  note r = deferred_remove [OF c1 calls d]
  have "db w1 = db w"
    by (simp add: w1)
  then show ?thesis
    using upload by (auto simp: H r)
qed

text \<open>
  C3. In both revisions of \<open>handlerUploadVideo\<close>: when the call of \<open>uploader.Upload\<close>
  fails, the handler answers 500 "Error uploading video to server", the record store is
  what it was before the request (so the record's \<open>VideoURL\<close> keeps its prior value),
  and \<open>UpdateVideo\<close> is not called.
\<close>

theorem upload_failure_leaves_record:
  "(CallUpload b k False \<in> set (issued w (fst (handlerUploadVideo cfg ex r w))) \<longrightarrow>
      snd (handlerUploadVideo cfg ex r w)
        = Return (respondWithError 500 ''Error uploading video to server'')
      \<and> db (fst (handlerUploadVideo cfg ex r w)) = db w
      \<and> (\<forall>v ok. CallUpdateVideo v ok \<notin> set (issued w (fst (handlerUploadVideo cfg ex r w)))))
   \<and> (CallUpload b k False \<in> set (issued w (fst (handlerUploadVideo_aspect cfg ex r w))) \<longrightarrow>
      snd (handlerUploadVideo_aspect cfg ex r w)
        = Return (respondWithError 500 ''Error uploading video to server'')
      \<and> db (fst (handlerUploadVideo_aspect cfg ex r w)) = db w
      \<and> (\<forall>v ok. CallUpdateVideo v ok \<notin> set (issued w (fst (handlerUploadVideo_aspect cfg ex r w)))))"
proof
  show "CallUpload b k False \<in> set (issued w (fst (handlerUploadVideo cfg ex r w))) \<longrightarrow>
      snd (handlerUploadVideo cfg ex r w)
        = Return (respondWithError 500 ''Error uploading video to server'')
      \<and> db (fst (handlerUploadVideo cfg ex r w)) = db w
      \<and> (\<forall>v ok. CallUpdateVideo v ok \<notin> set (issued w (fst (handlerUploadVideo cfg ex r w))))"
    using handlerUploadVideo_cases [of cfg ex r w]
  proof (elim disjE exE conjE)
    assume "fst (handlerUploadVideo cfg ex r w) = w"
    then show ?thesis by (simp add: issued_def)
  next
    fix tmp v h ct
    assume "handlerUploadVideo cfg ex r w =
      (fst (os_Remove (fst (handlerUploadVideo_staged cfg ex
              (w\<lparr>disk := (disk w)(tmp \<mapsto> []), calls := calls w @ [CallCreateTemp tmp]\<rparr>)
              v h ct tmp)) tmp),
       snd (handlerUploadVideo_staged cfg ex
              (w\<lparr>disk := (disk w)(tmp \<mapsto> []), calls := calls w @ [CallCreateTemp tmp]\<rparr>)
              v h ct tmp))"
    then show ?thesis
      by (rule deferred_upload_failure
          [OF refl staged_calls staged_disk staged_upload_failure])
  qed
  show "CallUpload b k False \<in> set (issued w (fst (handlerUploadVideo_aspect cfg ex r w))) \<longrightarrow>
      snd (handlerUploadVideo_aspect cfg ex r w)
        = Return (respondWithError 500 ''Error uploading video to server'')
      \<and> db (fst (handlerUploadVideo_aspect cfg ex r w)) = db w
      \<and> (\<forall>v ok. CallUpdateVideo v ok \<notin> set (issued w (fst (handlerUploadVideo_aspect cfg ex r w))))"
    using handlerUploadVideo_aspect_cases [of cfg ex r w]
  proof (elim disjE exE conjE)
    assume "fst (handlerUploadVideo_aspect cfg ex r w) = w"
    then show ?thesis by (simp add: issued_def)
  next
    fix tmp v h ct
    assume "handlerUploadVideo_aspect cfg ex r w =
      (fst (os_Remove (fst (handlerUploadVideo_aspect_staged cfg ex
              (w\<lparr>disk := (disk w)(tmp \<mapsto> []), calls := calls w @ [CallCreateTemp tmp]\<rparr>)
              v h ct tmp)) tmp),
       snd (handlerUploadVideo_aspect_staged cfg ex
              (w\<lparr>disk := (disk w)(tmp \<mapsto> []), calls := calls w @ [CallCreateTemp tmp]\<rparr>)
              v h ct tmp))"
    then show ?thesis
      by (rule deferred_upload_failure
          [OF refl aspect_staged_calls aspect_staged_disk aspect_staged_upload_failure])
  qed
qed

theorem upload_failure_leaves_record_witness:
  "CallUpload ''tubely'' ''random'' False
     \<in> set (issued w0 (fst (handlerUploadVideo cfg0 (ex0\<lparr>s3_Upload := (\<lambda>bucket key. None)\<rparr>) r_video w0)))
   \<and> snd (handlerUploadVideo cfg0 (ex0\<lparr>s3_Upload := (\<lambda>bucket key. None)\<rparr>) r_video w0)
       = Return (respondWithError 500 ''Error uploading video to server'')
   \<and> db (fst (handlerUploadVideo cfg0 (ex0\<lparr>s3_Upload := (\<lambda>bucket key. None)\<rparr>) r_video w0)) ''v1''
       = Some video0
   \<and> CallUpload ''tubely'' ''landscape/random'' False
     \<in> set (issued w0 (fst (handlerUploadVideo_aspect cfg0 (ex0\<lparr>s3_Upload := (\<lambda>bucket key. None)\<rparr>) r_video w0)))
   \<and> snd (handlerUploadVideo_aspect cfg0 (ex0\<lparr>s3_Upload := (\<lambda>bucket key. None)\<rparr>) r_video w0)
       = Return (respondWithError 500 ''Error uploading video to server'')
   \<and> db (fst (handlerUploadVideo_aspect cfg0 (ex0\<lparr>s3_Upload := (\<lambda>bucket key. None)\<rparr>) r_video w0)) ''v1''
       = Some video0"
proof -
  let ?ex = "ex0\<lparr>s3_Upload := (\<lambda>bucket key. None)\<rparr>"
  have plain: "CallUpload ''tubely'' ''random'' False
      \<in> set (issued w0 (fst (handlerUploadVideo cfg0 ?ex r_video w0)))"
    by (simp add: handlerUploadVideo_def handlerUploadVideo_staged_def ops issued_def Let_def
        fixtures)
  have probe: "CallUpload ''tubely'' ''landscape/random'' False
      \<in> set (issued w0 (fst (handlerUploadVideo_aspect cfg0 ?ex r_video w0)))"
    by (simp add: handlerUploadVideo_aspect_def handlerUploadVideo_aspect_staged_def ops
        issued_def Let_def probe0 aspect_def Landscape_def fixtures)
  have "db w0 ''v1'' = Some video0"
    by (simp add: w0_def)
  then show ?thesis
    using plain probe
      upload_failure_leaves_record [of "''tubely''" "''random''" w0 cfg0 ?ex r_video]
      upload_failure_leaves_record [of "''tubely''" "''landscape/random''" w0 cfg0 ?ex r_video]
    by simp
qed

text \<open>
  C5. In both revisions of \<open>handlerUploadVideo\<close>: once \<open>os.CreateTemp\<close> has
  created the staging file, the file is gone when the handler is left, whatever happened
  after its creation (a failed copy, probe, seek, random source, upload or update, a
  panic, or success), and the deferred \<open>os.Remove\<close> of that file is the last call the
  handler issues. Every check of the request is made before the file is created.
\<close>

theorem temp_file_removed:
  "(CallCreateTemp p \<in> set (issued w (fst (handlerUploadVideo cfg ex r w))) \<longrightarrow>
      disk (fst (handlerUploadVideo cfg ex r w)) p = None
      \<and> last (issued w (fst (handlerUploadVideo cfg ex r w))) = CallRemove p True)
   \<and> (CallCreateTemp p \<in> set (issued w (fst (handlerUploadVideo_aspect cfg ex r w))) \<longrightarrow>
      disk (fst (handlerUploadVideo_aspect cfg ex r w)) p = None
      \<and> last (issued w (fst (handlerUploadVideo_aspect cfg ex r w))) = CallRemove p True)"
proof
  show "CallCreateTemp p \<in> set (issued w (fst (handlerUploadVideo cfg ex r w))) \<longrightarrow>
      disk (fst (handlerUploadVideo cfg ex r w)) p = None
      \<and> last (issued w (fst (handlerUploadVideo cfg ex r w))) = CallRemove p True"
    using handlerUploadVideo_cases [of cfg ex r w]
  proof (elim disjE exE conjE)
    assume "fst (handlerUploadVideo cfg ex r w) = w"
    then show ?thesis by (simp add: issued_def)
  next
    fix tmp v h ct
    assume "handlerUploadVideo cfg ex r w =
      (fst (os_Remove (fst (handlerUploadVideo_staged cfg ex
              (w\<lparr>disk := (disk w)(tmp \<mapsto> []), calls := calls w @ [CallCreateTemp tmp]\<rparr>)
              v h ct tmp)) tmp),
       snd (handlerUploadVideo_staged cfg ex
              (w\<lparr>disk := (disk w)(tmp \<mapsto> []), calls := calls w @ [CallCreateTemp tmp]\<rparr>)
              v h ct tmp))"
    then show ?thesis
      by (rule deferred_temp_file [OF refl staged_calls staged_no_file_calls staged_disk])
  qed
  show "CallCreateTemp p \<in> set (issued w (fst (handlerUploadVideo_aspect cfg ex r w))) \<longrightarrow>
      disk (fst (handlerUploadVideo_aspect cfg ex r w)) p = None
      \<and> last (issued w (fst (handlerUploadVideo_aspect cfg ex r w))) = CallRemove p True"
    using handlerUploadVideo_aspect_cases [of cfg ex r w]
  proof (elim disjE exE conjE)
    assume "fst (handlerUploadVideo_aspect cfg ex r w) = w"
    then show ?thesis by (simp add: issued_def)
  next
    fix tmp v h ct
    assume "handlerUploadVideo_aspect cfg ex r w =
      (fst (os_Remove (fst (handlerUploadVideo_aspect_staged cfg ex
              (w\<lparr>disk := (disk w)(tmp \<mapsto> []), calls := calls w @ [CallCreateTemp tmp]\<rparr>)
              v h ct tmp)) tmp),
       snd (handlerUploadVideo_aspect_staged cfg ex
              (w\<lparr>disk := (disk w)(tmp \<mapsto> []), calls := calls w @ [CallCreateTemp tmp]\<rparr>)
              v h ct tmp))"
    then show ?thesis
      by (rule deferred_temp_file
          [OF refl aspect_staged_calls aspect_staged_no_file_calls aspect_staged_disk])
  qed
qed

theorem temp_file_removed_witness:
  "CallCreateTemp ''/tmp/tubely-upload.mp4''
     \<in> set (issued w0 (fst (handlerUploadVideo cfg0 ex0 r_video w0)))
   \<and> snd (handlerUploadVideo cfg0 ex0 r_video w0) = Return (WriteHeader 201)
   \<and> disk (fst (handlerUploadVideo cfg0 ex0 r_video w0)) ''/tmp/tubely-upload.mp4'' = None
   \<and> CallCreateTemp ''/tmp/tubely-upload.mp4''
     \<in> set (issued w0 (fst (handlerUploadVideo_aspect cfg0 (ex0\<lparr>io_Copy_fails := True\<rparr>) r_video w0)))
   \<and> snd (handlerUploadVideo_aspect cfg0 (ex0\<lparr>io_Copy_fails := True\<rparr>) r_video w0)
       = Return (respondWithError 500 ''Error copying file'')
   \<and> disk (fst (handlerUploadVideo_aspect cfg0 (ex0\<lparr>io_Copy_fails := True\<rparr>) r_video w0))
       ''/tmp/tubely-upload.mp4'' = None"
proof -
  let ?p = "''/tmp/tubely-upload.mp4''"
  let ?ex = "ex0\<lparr>io_Copy_fails := True\<rparr>"
  have plain: "CallCreateTemp ?p \<in> set (issued w0 (fst (handlerUploadVideo cfg0 ex0 r_video w0)))"
    "snd (handlerUploadVideo cfg0 ex0 r_video w0) = Return (WriteHeader 201)"
    by (simp_all add: handlerUploadVideo_def handlerUploadVideo_staged_def ops issued_def Let_def
        fixtures)
  have probe: "CallCreateTemp ?p \<in> set (issued w0 (fst (handlerUploadVideo_aspect cfg0 ?ex r_video w0)))"
    "snd (handlerUploadVideo_aspect cfg0 ?ex r_video w0)
       = Return (respondWithError 500 ''Error copying file'')"
    by (simp_all add: handlerUploadVideo_aspect_def handlerUploadVideo_aspect_staged_def ops
        issued_def Let_def fixtures)
  show ?thesis
    using plain probe temp_file_removed [of ?p w0 cfg0 ex0 r_video]
      temp_file_removed [of ?p w0 cfg0 ?ex r_video]
    by simp
qed

section \<open>The thumbnail handlers\<close>

lemma handlerUploadThumbnail_disk_cases:
  "fst (handlerUploadThumbnail_disk cfg ex r w) = w
     \<and> snd (handlerUploadThumbnail_disk cfg ex r w) \<noteq> Panic
   \<or> (\<exists>videoID userID header videoData.
        authenticated cfg ex r videoID userID
        \<and> FormFile ex (fst (ParseMultipartForm ex r maxMemory)) ''thumbnail'' = Some header
        \<and> mime_ParseMediaType ex (ContentType header) \<in> {''image/jpeg'', ''image/png''}
        \<and> db w videoID = Some videoData
        \<and> UserID videoData = userID
        \<and> handlerUploadThumbnail_disk cfg ex r w =
            handlerUploadThumbnail_disk_save cfg ex w videoData header
              (mime_ParseMediaType ex (ContentType header)))"
  by (auto simp: handlerUploadThumbnail_disk_def authenticated_def GetVideo_def Let_def
      case_prod_beta split: option.split)

lemma handlerUploadThumbnail_disk_reaches_save:
  assumes "authenticated cfg ex r videoID userID"
    and "FormFile ex (fst (ParseMultipartForm ex r maxMemory)) ''thumbnail'' = Some header"
    and "mime_ParseMediaType ex (ContentType header) \<in> {''image/jpeg'', ''image/png''}"
    and "db w videoID = Some videoData"
    and "UserID videoData = userID"
  shows "handlerUploadThumbnail_disk cfg ex r w =
           handlerUploadThumbnail_disk_save cfg ex w videoData header
             (mime_ParseMediaType ex (ContentType header))"
  using assms
  by (auto simp: handlerUploadThumbnail_disk_def authenticated_def GetVideo_def Let_def
      case_prod_beta split: option.splits)

lemma save_remove:
  "CallRemove p ok \<in> set (issued w (fst (handlerUploadThumbnail_disk_save cfg ex w videoData header ct))) \<longrightarrow>
     (\<exists>oldURL randBytes.
        ThumbnailURL videoData = Some oldURL \<and> rand_Read ex = Some randBytes
        \<and> p = ''./assets/'' @ getAssetFromURL ex oldURL
        \<and> (let newPath = getAssetPath ex (base64_EncodeToString ex randBytes) ct;
                videoData' = videoData\<lparr>ThumbnailURL := Some (getAssetURL cfg newPath)\<rparr> in
            issued w (fst (handlerUploadThumbnail_disk_save cfg ex w videoData header ct))
              = [CallCreate (getAssetDiskPath cfg newPath) True,
                 CallCopy (getAssetDiskPath cfg newPath) True,
                 CallUpdateVideo videoData' True,
                 CallRemove p ok]
            \<and> db (fst (handlerUploadThumbnail_disk_save cfg ex w videoData header ct)) (ID videoData)
                = Some videoData'
            \<and> snd (handlerUploadThumbnail_disk_save cfg ex w videoData header ct)
                = Return (if ok then respondWithJSON 200 videoData'
                          else respondWithError 500 ''Error removing old thumbnail'')))"
  by (simp add: handlerUploadThumbnail_disk_save_def UpdateVideo_def os_Create_def io_Copy_def
      os_Remove_def issued_def Let_def split: option.split)

lemma save_panic:
  "snd (handlerUploadThumbnail_disk_save cfg ex w videoData header ct) = Panic \<longleftrightarrow>
     (\<exists>randBytes. rand_Read ex = Some randBytes
        \<and> \<not> os_Create_fails ex
              (getAssetDiskPath cfg (getAssetPath ex (base64_EncodeToString ex randBytes) ct))
        \<and> \<not> io_Copy_fails ex
        \<and> ThumbnailURL videoData = None)"
  by (simp add: handlerUploadThumbnail_disk_save_def UpdateVideo_def os_Create_def io_Copy_def
      os_Remove_def Let_def split: option.split)

lemma save_panic_effects:
  "snd (handlerUploadThumbnail_disk_save cfg ex w videoData header ct) = Panic \<longrightarrow>
     db (fst (handlerUploadThumbnail_disk_save cfg ex w videoData header ct)) = db w
     \<and> (\<forall>v ok. CallUpdateVideo v ok
           \<notin> set (issued w (fst (handlerUploadThumbnail_disk_save cfg ex w videoData header ct))))"
  by (simp add: handlerUploadThumbnail_disk_save_def UpdateVideo_def os_Create_def io_Copy_def
      os_Remove_def issued_def Let_def split: option.split)

text \<open>
  C7. In \<open>handlerUploadThumbnail\<close> storing on disk: whenever the handler calls
  \<open>os.Remove\<close>, the path is the one derived from the record's previous
  \<open>ThumbnailURL\<close>, the call is the last one of the request and comes right after an
  \<open>UpdateVideo\<close> that succeeded, so the record store already holds the record with the
  new URL; and when the removal fails the handler answers 500 "Error removing old
  thumbnail" all the same.
\<close>

theorem old_thumbnail_removed_after_update:
  "CallRemove p ok \<in> set (issued w (fst (handlerUploadThumbnail_disk cfg ex r w))) \<longrightarrow>
     (\<exists>videoID videoData header oldURL randBytes.
        uuid_Parse ex (PathValue_videoID r) = Some videoID
        \<and> db w videoID = Some videoData
        \<and> FormFile ex (fst (ParseMultipartForm ex r maxMemory)) ''thumbnail'' = Some header
        \<and> ThumbnailURL videoData = Some oldURL
        \<and> rand_Read ex = Some randBytes
        \<and> p = ''./assets/'' @ getAssetFromURL ex oldURL
        \<and> (let newPath = getAssetPath ex (base64_EncodeToString ex randBytes)
                            (mime_ParseMediaType ex (ContentType header));
                videoData' = videoData\<lparr>ThumbnailURL := Some (getAssetURL cfg newPath)\<rparr> in
            issued w (fst (handlerUploadThumbnail_disk cfg ex r w))
              = [CallCreate (getAssetDiskPath cfg newPath) True,
                 CallCopy (getAssetDiskPath cfg newPath) True,
                 CallUpdateVideo videoData' True,
                 CallRemove p ok]
            \<and> db (fst (handlerUploadThumbnail_disk cfg ex r w)) (ID videoData) = Some videoData'
            \<and> snd (handlerUploadThumbnail_disk cfg ex r w)
                = Return (if ok then respondWithJSON 200 videoData'
                          else respondWithError 500 ''Error removing old thumbnail'')))"
proof -
  consider (unchanged) "fst (handlerUploadThumbnail_disk cfg ex r w) = w"
    | (save) videoID userID header videoData where
        "authenticated cfg ex r videoID userID"
        "FormFile ex (fst (ParseMultipartForm ex r maxMemory)) ''thumbnail'' = Some header"
        "db w videoID = Some videoData"
        "handlerUploadThumbnail_disk cfg ex r w =
           handlerUploadThumbnail_disk_save cfg ex w videoData header
             (mime_ParseMediaType ex (ContentType header))"
    using handlerUploadThumbnail_disk_cases [of cfg ex r w] by blast
  then show ?thesis
  proof cases
    case unchanged
    then show ?thesis by (simp add: issued_def)
  next
    case save
    from save(1) have "uuid_Parse ex (PathValue_videoID r) = Some videoID"
      by (simp add: authenticated_def)
    with save(2-4)
      save_remove [of p ok w cfg ex videoData header "mime_ParseMediaType ex (ContentType header)"]
    show ?thesis
      by (auto simp: Let_def)
  qed
qed

theorem old_thumbnail_removed_after_update_witness:
  "CallRemove ''./assets/old.png'' False
     \<in> set (issued (w0\<lparr>disk := Map.empty\<rparr>)
              (fst (handlerUploadThumbnail_disk cfg0 ex0 r_thumb (w0\<lparr>disk := Map.empty\<rparr>))))
   \<and> snd (handlerUploadThumbnail_disk cfg0 ex0 r_thumb (w0\<lparr>disk := Map.empty\<rparr>))
       = Return (respondWithError 500 ''Error removing old thumbnail'')
   \<and> db (fst (handlerUploadThumbnail_disk cfg0 ex0 r_thumb (w0\<lparr>disk := Map.empty\<rparr>))) ''v1''
       = Some (video0\<lparr>ThumbnailURL := Some ''http://localhost:8091/assets/random.png''\<rparr>)"
proof -
  let ?w = "w0\<lparr>disk := Map.empty\<rparr>"
  have run: "CallRemove ''./assets/old.png'' False
      \<in> set (issued ?w (fst (handlerUploadThumbnail_disk cfg0 ex0 r_thumb ?w)))"
    by (simp add: handlerUploadThumbnail_disk_def handlerUploadThumbnail_disk_save_def ops
        issued_def Let_def fixtures)
  show ?thesis
    using run
      old_thumbnail_removed_after_update [of "''./assets/old.png''" False ?w cfg0 ex0 r_thumb]
    by (auto simp: Let_def ops fixtures)
qed

text \<open>
  C9. In \<open>handlerUploadThumbnail\<close> storing on disk, \<open>*videoData.ThumbnailURL\<close> is
  evaluated without a check. The handler panics exactly when the request passes every
  check, the new file has been created and written, and the record's \<open>ThumbnailURL\<close> is
  nil; it then writes no response, and the record store is neither changed nor called.
  With a record that has a thumbnail reference the handler never panics.
\<close>

theorem nil_thumbnail_panics:
  "(snd (handlerUploadThumbnail_disk cfg ex r w) = Panic \<longleftrightarrow>
      (\<exists>videoID userID header videoData randBytes.
         authenticated cfg ex r videoID userID
         \<and> FormFile ex (fst (ParseMultipartForm ex r maxMemory)) ''thumbnail'' = Some header
         \<and> mime_ParseMediaType ex (ContentType header) \<in> {''image/jpeg'', ''image/png''}
         \<and> db w videoID = Some videoData
         \<and> UserID videoData = userID
         \<and> rand_Read ex = Some randBytes
         \<and> \<not> os_Create_fails ex
               (getAssetDiskPath cfg (getAssetPath ex (base64_EncodeToString ex randBytes)
                   (mime_ParseMediaType ex (ContentType header))))
         \<and> \<not> io_Copy_fails ex
         \<and> ThumbnailURL videoData = None))
   \<and> (snd (handlerUploadThumbnail_disk cfg ex r w) = Panic \<longrightarrow>
        db (fst (handlerUploadThumbnail_disk cfg ex r w)) = db w
        \<and> (\<forall>v ok. CallUpdateVideo v ok
              \<notin> set (issued w (fst (handlerUploadThumbnail_disk cfg ex r w)))))"
proof -
  let ?H = "handlerUploadThumbnail_disk cfg ex r w"
  let ?nil = "\<exists>videoID userID header videoData randBytes.
         authenticated cfg ex r videoID userID
         \<and> FormFile ex (fst (ParseMultipartForm ex r maxMemory)) ''thumbnail'' = Some header
         \<and> mime_ParseMediaType ex (ContentType header) \<in> {''image/jpeg'', ''image/png''}
         \<and> db w videoID = Some videoData
         \<and> UserID videoData = userID
         \<and> rand_Read ex = Some randBytes
         \<and> \<not> os_Create_fails ex
               (getAssetDiskPath cfg (getAssetPath ex (base64_EncodeToString ex randBytes)
                   (mime_ParseMediaType ex (ContentType header))))
         \<and> \<not> io_Copy_fails ex
         \<and> ThumbnailURL videoData = None"
  have fwd: "?nil" if panic: "snd ?H = Panic"
  proof -
    from panic obtain videoID userID header videoData where reach:
        "authenticated cfg ex r videoID userID"
        "FormFile ex (fst (ParseMultipartForm ex r maxMemory)) ''thumbnail'' = Some header"
        "mime_ParseMediaType ex (ContentType header) \<in> {''image/jpeg'', ''image/png''}"
        "db w videoID = Some videoData"
        "UserID videoData = userID"
      and save: "?H = handlerUploadThumbnail_disk_save cfg ex w videoData header
            (mime_ParseMediaType ex (ContentType header))"
      using handlerUploadThumbnail_disk_cases [of cfg ex r w] by blast
    from panic save save_panic
      [of cfg ex w videoData header "mime_ParseMediaType ex (ContentType header)"]
    obtain randBytes where
        "rand_Read ex = Some randBytes"
        "\<not> os_Create_fails ex
            (getAssetDiskPath cfg (getAssetPath ex (base64_EncodeToString ex randBytes)
                (mime_ParseMediaType ex (ContentType header))))"
        "\<not> io_Copy_fails ex"
        "ThumbnailURL videoData = None"
      by auto
    with reach show ?thesis by blast
  qed
  have bwd: "snd ?H = Panic" if holds: "?nil"
  proof -
    from holds obtain videoID userID header videoData randBytes where reach:
        "authenticated cfg ex r videoID userID"
        "FormFile ex (fst (ParseMultipartForm ex r maxMemory)) ''thumbnail'' = Some header"
        "mime_ParseMediaType ex (ContentType header) \<in> {''image/jpeg'', ''image/png''}"
        "db w videoID = Some videoData"
        "UserID videoData = userID"
      and nil: "rand_Read ex = Some randBytes"
        "\<not> os_Create_fails ex
            (getAssetDiskPath cfg (getAssetPath ex (base64_EncodeToString ex randBytes)
                (mime_ParseMediaType ex (ContentType header))))"
        "\<not> io_Copy_fails ex"
        "ThumbnailURL videoData = None"
      by blast
    show ?thesis
      using nil by (simp add: handlerUploadThumbnail_disk_reaches_save [OF reach] save_panic)
  qed
  have effects: "db (fst ?H) = db w \<and> (\<forall>v ok. CallUpdateVideo v ok \<notin> set (issued w (fst ?H)))"
    if panic: "snd ?H = Panic"
  proof -
    from panic obtain videoData header where
      "?H = handlerUploadThumbnail_disk_save cfg ex w videoData header
            (mime_ParseMediaType ex (ContentType header))"
      using handlerUploadThumbnail_disk_cases [of cfg ex r w] by blast
    with panic save_panic_effects
      [of cfg ex w videoData header "mime_ParseMediaType ex (ContentType header)"]
    show ?thesis by simp
  qed
  from fwd bwd effects show ?thesis by blast
qed

theorem nil_thumbnail_panics_witness:
  "snd (handlerUploadThumbnail_disk cfg0 ex0 r_thumb
          (w0\<lparr>db := [''v1'' \<mapsto> video0\<lparr>ThumbnailURL := None\<rparr>]\<rparr>)) = Panic
   \<and> db (fst (handlerUploadThumbnail_disk cfg0 ex0 r_thumb
          (w0\<lparr>db := [''v1'' \<mapsto> video0\<lparr>ThumbnailURL := None\<rparr>]\<rparr>))) ''v1''
       = Some (video0\<lparr>ThumbnailURL := None\<rparr>)
   \<and> snd (handlerUploadThumbnail_disk cfg0 ex0 r_thumb w0) \<noteq> Panic"
proof -
  let ?w = "w0\<lparr>db := [''v1'' \<mapsto> video0\<lparr>ThumbnailURL := None\<rparr>]\<rparr>"
  have nil: "\<exists>videoID userID header videoData randBytes.
         authenticated cfg0 ex0 r_thumb videoID userID
         \<and> FormFile ex0 (fst (ParseMultipartForm ex0 r_thumb maxMemory)) ''thumbnail'' = Some header
         \<and> mime_ParseMediaType ex0 (ContentType header) \<in> {''image/jpeg'', ''image/png''}
         \<and> db ?w videoID = Some videoData
         \<and> UserID videoData = userID
         \<and> rand_Read ex0 = Some randBytes
         \<and> \<not> os_Create_fails ex0
               (getAssetDiskPath cfg0 (getAssetPath ex0 (base64_EncodeToString ex0 randBytes)
                   (mime_ParseMediaType ex0 (ContentType header))))
         \<and> \<not> io_Copy_fails ex0
         \<and> ThumbnailURL videoData = None"
    by (simp add: authenticated_def ops fixtures)
  have some: "\<not> (\<exists>videoID userID header videoData randBytes.
         authenticated cfg0 ex0 r_thumb videoID userID
         \<and> FormFile ex0 (fst (ParseMultipartForm ex0 r_thumb maxMemory)) ''thumbnail'' = Some header
         \<and> mime_ParseMediaType ex0 (ContentType header) \<in> {''image/jpeg'', ''image/png''}
         \<and> db w0 videoID = Some videoData
         \<and> UserID videoData = userID
         \<and> rand_Read ex0 = Some randBytes
         \<and> \<not> os_Create_fails ex0
               (getAssetDiskPath cfg0 (getAssetPath ex0 (base64_EncodeToString ex0 randBytes)
                   (mime_ParseMediaType ex0 (ContentType header))))
         \<and> \<not> io_Copy_fails ex0
         \<and> ThumbnailURL videoData = None)"
    by (auto simp: w0_def video0_def split: if_splits)
  show ?thesis
    using nil some nil_thumbnail_panics [of cfg0 ex0 r_thumb ?w]
      nil_thumbnail_panics [of cfg0 ex0 r_thumb w0]
    by (simp add: w0_def)
qed

text \<open>
  C10. In \<open>handlerUploadThumbnail\<close> storing in memory, a failed \<open>UpdateVideo\<close>
  makes the handler delete the key of the video from \<open>videoThumbnails\<close> and answer 500.
  When the video already had a thumbnail in the map, that earlier entry is gone afterwards:
  the map is not what it was before the request.
\<close>

theorem rollback_drops_previous_thumbnail:
  "videoThumbnails w_thumb ''v1'' = Some \<lparr>data = ''old image'', mediaType = ''image/jpeg''\<rparr>
   \<and> snd (handlerUploadThumbnail_mem cfg0 (ex0\<lparr>UpdateVideo_fails := (\<lambda>v. True)\<rparr>) r_thumb w_thumb)
       = Return (respondWithError 500 ''Couldn't update video data'')
   \<and> videoThumbnails
         (fst (handlerUploadThumbnail_mem cfg0 (ex0\<lparr>UpdateVideo_fails := (\<lambda>v. True)\<rparr>) r_thumb w_thumb))
         ''v1'' = None
   \<and> db (fst (handlerUploadThumbnail_mem cfg0 (ex0\<lparr>UpdateVideo_fails := (\<lambda>v. True)\<rparr>) r_thumb w_thumb))
         ''v1'' = Some video0"
  by (simp add: handlerUploadThumbnail_mem_def ops Let_def fixtures)

section \<open>The checks of the request\<close>

text \<open>
  C2 (amended). A request that passes the checks made before the content type is looked
  at, and whose file part has a media type (the first result of \<open>mime.ParseMediaType\<close>
  on the part's \<open>Content-Type\<close>) that is empty or not on the list, is answered with
  400 and changes nothing, whatever the bytes of the file are: the list is
  \<open>image/jpeg\<close>, \<open>image/png\<close> in \<open>handlerUploadThumbnail\<close> storing on disk and
  \<open>video/mp4\<close> in both revisions of \<open>handlerUploadVideo\<close>.
  \<open>handlerUploadThumbnail\<close> storing in memory has no list: it answers 400 to an empty
  \<open>Content-Type\<close> header, and a part with any other declared type is stored under that
  type when the later steps succeed.
\<close>

theorem content_type_allow_list:
  "(authenticated cfg ex r videoID userID
      \<and> FormFile ex (fst (ParseMultipartForm ex r maxMemory)) ''thumbnail'' = Some header
      \<and> mime_ParseMediaType ex (ContentType header) \<notin> {''image/jpeg'', ''image/png''}
    \<longrightarrow> handlerUploadThumbnail_disk cfg ex r w =
          (w, Return (respondWithError 400
                (if mime_ParseMediaType ex (ContentType header) = []
                 then ''Missing Content-Type for thumbnail''
                 else ''wrong image type for thumbnail''))))
   \<and> (authenticated cfg ex r videoID userID
      \<and> \<not> snd (ParseMultipartForm ex (MaxBytesReader r maxVideoSize) maxVideoSize)
      \<and> db w videoID = Some videoData \<and> UserID videoData = userID
      \<and> FormFile ex (fst (ParseMultipartForm ex (MaxBytesReader r maxVideoSize) maxVideoSize))
            ''video'' = Some header
      \<and> mime_ParseMediaType ex (ContentType header) \<noteq> ''video/mp4''
    \<longrightarrow> handlerUploadVideo cfg ex r w =
          (w, Return (respondWithError 400 ''wrong content type for video''))
      \<and> handlerUploadVideo_aspect cfg ex r w =
          (w, Return (respondWithError 400 ''wrong content type for video'')))
   \<and> (authenticated cfg ex r videoID userID
      \<and> FormFile ex (fst (ParseMultipartForm ex r maxMemory)) ''thumbnail'' = Some header
      \<and> ContentType header = []
    \<longrightarrow> handlerUploadThumbnail_mem cfg ex r w =
          (w, Return (respondWithError 400 ''Missing Content-Type for thumbnail'')))
   \<and> (authenticated cfg ex r videoID userID
      \<and> FormFile ex (fst (ParseMultipartForm ex r maxMemory)) ''thumbnail'' = Some header
      \<and> ContentType header \<noteq> []
      \<and> \<not> io_ReadAll_fails ex
      \<and> db w videoID = Some videoData \<and> UserID videoData = userID
      \<and> \<not> UpdateVideo_fails ex
            (videoData\<lparr>ThumbnailURL :=
               Some (''http://localhost:'' @ port cfg @ ''/api/thumbnails/'' @ videoID)\<rparr>)
    \<longrightarrow> snd (handlerUploadThumbnail_mem cfg ex r w) =
          Return (respondWithJSON 200
            (videoData\<lparr>ThumbnailURL :=
               Some (''http://localhost:'' @ port cfg @ ''/api/thumbnails/'' @ videoID)\<rparr>))
      \<and> videoThumbnails (fst (handlerUploadThumbnail_mem cfg ex r w)) videoID =
          Some \<lparr>data = content header, mediaType = ContentType header\<rparr>)"
proof (intro conjI impI)
  assume "authenticated cfg ex r videoID userID
      \<and> FormFile ex (fst (ParseMultipartForm ex r maxMemory)) ''thumbnail'' = Some header
      \<and> mime_ParseMediaType ex (ContentType header) \<notin> {''image/jpeg'', ''image/png''}"
  then show "handlerUploadThumbnail_disk cfg ex r w =
          (w, Return (respondWithError 400
                (if mime_ParseMediaType ex (ContentType header) = []
                 then ''Missing Content-Type for thumbnail''
                 else ''wrong image type for thumbnail'')))"
    by (auto simp: handlerUploadThumbnail_disk_def authenticated_def Let_def case_prod_beta
        split: option.splits)
next
  assume a: "authenticated cfg ex r videoID userID
      \<and> \<not> snd (ParseMultipartForm ex (MaxBytesReader r maxVideoSize) maxVideoSize)
      \<and> db w videoID = Some videoData \<and> UserID videoData = userID
      \<and> FormFile ex (fst (ParseMultipartForm ex (MaxBytesReader r maxVideoSize) maxVideoSize))
            ''video'' = Some header
      \<and> mime_ParseMediaType ex (ContentType header) \<noteq> ''video/mp4''"
  then show "handlerUploadVideo cfg ex r w =
          (w, Return (respondWithError 400 ''wrong content type for video''))"
    by (auto simp: handlerUploadVideo_def authenticated_def GetVideo_def Let_def
        case_prod_beta split: option.splits)
  from a show "handlerUploadVideo_aspect cfg ex r w =
          (w, Return (respondWithError 400 ''wrong content type for video''))"
    by (auto simp: handlerUploadVideo_aspect_def authenticated_def GetVideo_def Let_def
        case_prod_beta split: option.splits)
next
  assume "authenticated cfg ex r videoID userID
      \<and> FormFile ex (fst (ParseMultipartForm ex r maxMemory)) ''thumbnail'' = Some header
      \<and> ContentType header = []"
  then show "handlerUploadThumbnail_mem cfg ex r w =
          (w, Return (respondWithError 400 ''Missing Content-Type for thumbnail''))"
    by (auto simp: handlerUploadThumbnail_mem_def authenticated_def Let_def case_prod_beta
        split: option.splits)
next
  assume s: "authenticated cfg ex r videoID userID
      \<and> FormFile ex (fst (ParseMultipartForm ex r maxMemory)) ''thumbnail'' = Some header
      \<and> ContentType header \<noteq> []
      \<and> \<not> io_ReadAll_fails ex
      \<and> db w videoID = Some videoData \<and> UserID videoData = userID
      \<and> \<not> UpdateVideo_fails ex
            (videoData\<lparr>ThumbnailURL :=
               Some (''http://localhost:'' @ port cfg @ ''/api/thumbnails/'' @ videoID)\<rparr>)"
  then show "snd (handlerUploadThumbnail_mem cfg ex r w) =
          Return (respondWithJSON 200
            (videoData\<lparr>ThumbnailURL :=
               Some (''http://localhost:'' @ port cfg @ ''/api/thumbnails/'' @ videoID)\<rparr>))"
    by (auto simp: handlerUploadThumbnail_mem_def authenticated_def GetVideo_def UpdateVideo_def
        Let_def case_prod_beta split: option.splits)
  from s show "videoThumbnails (fst (handlerUploadThumbnail_mem cfg ex r w)) videoID =
          Some \<lparr>data = content header, mediaType = ContentType header\<rparr>"
    by (auto simp: handlerUploadThumbnail_mem_def authenticated_def GetVideo_def UpdateVideo_def
        Let_def case_prod_beta split: option.splits)
qed

theorem content_type_allow_list_witness:
  "handlerUploadThumbnail_disk cfg0 ex0
      (r_thumb\<lparr>formFiles := [''thumbnail'' \<mapsto> \<lparr>ContentType = ''text/html'', content = ''png bytes''\<rparr>]\<rparr>) w0
     = (w0, Return (respondWithError 400 ''wrong image type for thumbnail''))
   \<and> handlerUploadVideo cfg0 ex0
      (r_video\<lparr>formFiles := [''video'' \<mapsto> \<lparr>ContentType = ''video/quicktime'', content = ''mp4 bytes''\<rparr>]\<rparr>) w0
     = (w0, Return (respondWithError 400 ''wrong content type for video''))
   \<and> handlerUploadVideo_aspect cfg0 ex0
      (r_video\<lparr>formFiles := [''video'' \<mapsto> \<lparr>ContentType = [], content = ''mp4 bytes''\<rparr>]\<rparr>) w0
     = (w0, Return (respondWithError 400 ''wrong content type for video''))
   \<and> handlerUploadThumbnail_mem cfg0 ex0
      (r_thumb\<lparr>formFiles := [''thumbnail'' \<mapsto> \<lparr>ContentType = [], content = ''png bytes''\<rparr>]\<rparr>) w0
     = (w0, Return (respondWithError 400 ''Missing Content-Type for thumbnail''))
   \<and> videoThumbnails (fst (handlerUploadThumbnail_mem cfg0 ex0
      (r_thumb\<lparr>formFiles := [''thumbnail'' \<mapsto> \<lparr>ContentType = ''image/gif'', content = ''gif bytes''\<rparr>]\<rparr>) w0))
      ''v1''
     = Some \<lparr>data = ''gif bytes'', mediaType = ''image/gif''\<rparr>"
proof -
  let ?gif = "\<lparr>ContentType = ''image/gif'', content = ''gif bytes''\<rparr>"
  let ?html = "\<lparr>ContentType = ''text/html'', content = ''png bytes''\<rparr>"
  let ?mov = "\<lparr>ContentType = ''video/quicktime'', content = ''mp4 bytes''\<rparr>"
  let ?none = "\<lparr>ContentType = [], content = ''mp4 bytes''\<rparr>"
  let ?bare = "\<lparr>ContentType = [], content = ''png bytes''\<rparr>"
  have "handlerUploadThumbnail_disk cfg0 ex0 (r_thumb\<lparr>formFiles := [''thumbnail'' \<mapsto> ?html]\<rparr>) w0
     = (w0, Return (respondWithError 400 ''wrong image type for thumbnail''))"
    using content_type_allow_list
      [of cfg0 ex0 "r_thumb\<lparr>formFiles := [''thumbnail'' \<mapsto> ?html]\<rparr>" "''v1''" "''alice''" ?html w0 video0]
    by (simp add: authenticated_def ops fixtures)
  moreover
  have "handlerUploadVideo cfg0 ex0 (r_video\<lparr>formFiles := [''video'' \<mapsto> ?mov]\<rparr>) w0
     = (w0, Return (respondWithError 400 ''wrong content type for video''))"
    using content_type_allow_list
      [of cfg0 ex0 "r_video\<lparr>formFiles := [''video'' \<mapsto> ?mov]\<rparr>" "''v1''" "''alice''" ?mov w0 video0]
    by (simp add: authenticated_def ops fixtures)
  moreover
  have "handlerUploadVideo_aspect cfg0 ex0 (r_video\<lparr>formFiles := [''video'' \<mapsto> ?none]\<rparr>) w0
     = (w0, Return (respondWithError 400 ''wrong content type for video''))"
    using content_type_allow_list
      [of cfg0 ex0 "r_video\<lparr>formFiles := [''video'' \<mapsto> ?none]\<rparr>" "''v1''" "''alice''" ?none w0 video0]
    by (simp add: authenticated_def ops fixtures)
  moreover
  have "handlerUploadThumbnail_mem cfg0 ex0 (r_thumb\<lparr>formFiles := [''thumbnail'' \<mapsto> ?bare]\<rparr>) w0
     = (w0, Return (respondWithError 400 ''Missing Content-Type for thumbnail''))"
    using content_type_allow_list
      [of cfg0 ex0 "r_thumb\<lparr>formFiles := [''thumbnail'' \<mapsto> ?bare]\<rparr>" "''v1''" "''alice''" ?bare w0 video0]
    by (simp add: authenticated_def ops fixtures)
  moreover
  have "videoThumbnails (fst (handlerUploadThumbnail_mem cfg0 ex0
          (r_thumb\<lparr>formFiles := [''thumbnail'' \<mapsto> ?gif]\<rparr>) w0)) ''v1''
     = Some \<lparr>data = ''gif bytes'', mediaType = ''image/gif''\<rparr>"
    using content_type_allow_list
      [of cfg0 ex0 "r_thumb\<lparr>formFiles := [''thumbnail'' \<mapsto> ?gif]\<rparr>" "''v1''" "''alice''" ?gif w0 video0]
    by (simp add: authenticated_def ops fixtures)
  ultimately show ?thesis by simp
qed

text \<open>
  The handler storing in memory accepts a part declared as \<open>text/html\<close> and keeps it
  under that type.
\<close>

theorem content_type_allow_list_counterexample:
  "''text/html'' \<notin> {''image/jpeg'', ''image/png''}
   \<and> snd (handlerUploadThumbnail_mem cfg0 ex0
        (r_thumb\<lparr>formFiles := [''thumbnail'' \<mapsto> \<lparr>ContentType = ''text/html'', content = ''<html>''\<rparr>]\<rparr>) w0)
     = Return (respondWithJSON 200
         (video0\<lparr>ThumbnailURL := Some ''http://localhost:8091/api/thumbnails/v1''\<rparr>))
   \<and> videoThumbnails (fst (handlerUploadThumbnail_mem cfg0 ex0
        (r_thumb\<lparr>formFiles := [''thumbnail'' \<mapsto> \<lparr>ContentType = ''text/html'', content = ''<html>''\<rparr>]\<rparr>) w0))
        ''v1''
     = Some \<lparr>data = ''<html>'', mediaType = ''text/html''\<rparr>"
  by (simp add: handlerUploadThumbnail_mem_def ops Let_def fixtures)





end
